theory Spec2Isabelle
  imports Complex_Main "HOL-Library.Log_Nat"
begin

section \<open>Numbers and strings of the source\<close>

text \<open>
  A value of the TypeScript type \<open>number\<close> is an IEEE 754 double. A field of type
  \<open>number\<close> is modelled by the rational number it holds (type \<open>number\<close> below), so the
  fields never hold \<open>NaN\<close> or an infinity. The totals of the cart are computed in double
  arithmetic: their type is \<open>double\<close>, every sum and product is rounded to the nearest
  double, ties to the even significand, and may overflow to an infinity. Zero has no
  sign here: addition and multiplication cannot tell \<open>-0\<close> from \<open>0\<close>. The store
  itself only compares quantities with 0 and adds them in \<open>addItem\<close>; that sum is kept
  exact, which is the double sum for whole quantities below \<open>2^53\<close>. A JavaScript
  string is a \<open>string\<close>, one \<open>char\<close> standing for one code unit, so that \<open>length\<close> is
  the string's \<open>.length\<close>.
\<close>

type_synonym number = rat

text \<open>\<open>pow2 k\<close> is 2 to the power \<open>k\<close>, for any integer \<open>k\<close>.\<close>

definition pow2 :: "int \<Rightarrow> rat" where
  "pow2 k = (if 0 \<le> k then 2 ^ nat k else 1 / 2 ^ nat (- k))"

text \<open>The binary exponent of a positive rational \<open>x\<close>: the integer \<open>e\<close> with
  \<open>2^e \<le> x < 2^(e+1)\<close>. It is the difference of the bit lengths of numerator and
  denominator, or one less.\<close>

definition log2floor :: "rat \<Rightarrow> int" where
  "log2floor x =
     (let (a, b) = quotient_of x; d = bitlen a - bitlen b
      in if pow2 d \<le> x then d else d - 1)"

text \<open>Rounding to the nearest integer, a tie going to the even one.\<close>

definition roundHalfEven :: "rat \<Rightarrow> int" where
  "roundHalfEven n =
     (let f = \<lfloor>n\<rfloor>; d = n - of_int f
      in if d < 1 / 2 then f else if 1 / 2 < d then f + 1 else if even f then f else f + 1)"

text \<open>
  Rounding to binary64 with no bound on the exponent from above: a double with binary
  exponent \<open>e\<close> is a multiple of \<open>2^(e - 52)\<close> (53 significant bits), and of
  \<open>2^(-1074)\<close> in the subnormal range.
\<close>

definition roundNearest :: "rat \<Rightarrow> rat" where
  "roundNearest x =
     (if x = 0 then 0
      else (let q = max (log2floor \<bar>x\<bar> - 52) (- 1074)
            in of_int (roundHalfEven (x / pow2 q)) * pow2 q))"

datatype double = Finite rat | PlusInfinity | MinusInfinity | NaN

text \<open>The double nearest to a rational: a rounded value of binary exponent 1024 or more
  (at least \<open>2^1024\<close> in size) is an infinity.\<close>

definition round64 :: "rat \<Rightarrow> double" where
  "round64 x =
     (let r = roundNearest x
      in if r \<noteq> 0 \<and> 1024 \<le> log2floor \<bar>r\<bar>
         then (if 0 < r then PlusInfinity else MinusInfinity)
         else Finite r)"


text \<open>The operators \<open>+\<close> and \<open>*\<close> of the source.\<close>

fun dadd :: "double \<Rightarrow> double \<Rightarrow> double" where
  "dadd (Finite x) (Finite y) = round64 (x + y)"
| "dadd NaN b = NaN"
| "dadd a NaN = NaN"
| "dadd PlusInfinity MinusInfinity = NaN"
| "dadd MinusInfinity PlusInfinity = NaN"
| "dadd PlusInfinity b = PlusInfinity"
| "dadd MinusInfinity b = MinusInfinity"
| "dadd (Finite x) b = b"

text \<open>An infinity times a finite number: \<open>NaN\<close> for 0, else the infinity with the sign
  of the product.\<close>

definition infinityTimes :: "bool \<Rightarrow> rat \<Rightarrow> double" where
  "infinityTimes positive y =
     (if y = 0 then NaN
      else if (0 < y) = positive then PlusInfinity else MinusInfinity)"

fun dmul :: "double \<Rightarrow> double \<Rightarrow> double" where
  "dmul (Finite x) (Finite y) = round64 (x * y)"
| "dmul NaN b = NaN"
| "dmul a NaN = NaN"
| "dmul PlusInfinity (Finite y) = infinityTimes True y"
| "dmul MinusInfinity (Finite y) = infinityTimes False y"
| "dmul (Finite x) PlusInfinity = infinityTimes True x"
| "dmul (Finite x) MinusInfinity = infinityTimes False x"
| "dmul PlusInfinity PlusInfinity = PlusInfinity"
| "dmul MinusInfinity MinusInfinity = PlusInfinity"
| "dmul PlusInfinity MinusInfinity = MinusInfinity"
| "dmul MinusInfinity PlusInfinity = MinusInfinity"

section \<open>The cart store (hooks/useCart.ts)\<close>

record CartItem =
  item_id :: string
  name :: string
  price :: number
  quantity :: number
  image :: "string option"
  sku :: "string option"
  attributes :: "(string \<times> string) list option"

text \<open>The argument of \<open>addItem\<close>: a cart item whose quantity may be left out.\<close>

record AddItemArg =
  arg_id :: string
  arg_name :: string
  arg_price :: number
  arg_quantity :: "number option"
  arg_image :: "string option"
  arg_sku :: "string option"
  arg_attributes :: "(string \<times> string) list option"

record CartState =
  items :: "CartItem list"
  isOpen :: bool

definition initialCart :: CartState where
  "initialCart = \<lparr>items = [], isOpen = False\<rparr>"

text \<open>\<open>item.quantity || 1\<close>: a missing quantity and the falsy quantity 0 both give 1.\<close>

definition quantityOrOne :: "number option \<Rightarrow> number" where
  "quantityOrOne q = (case q of None \<Rightarrow> 1 | Some v \<Rightarrow> if v = 0 then 1 else v)"

text \<open>\<open>Array.prototype.findIndex\<close>: the first index whose element satisfies the
  predicate, and -1 when there is none.\<close>

fun findIndex :: "('a \<Rightarrow> bool) \<Rightarrow> 'a list \<Rightarrow> int" where
  "findIndex P [] = -1"
| "findIndex P (x # xs) =
     (if P x then 0
      else (let r = findIndex P xs in if r = -1 then -1 else r + 1))"

text \<open>\<open>{ ...item, quantity }\<close>\<close>

definition spreadItem :: "AddItemArg \<Rightarrow> number \<Rightarrow> CartItem" where
  "spreadItem item q =
     \<lparr>item_id = arg_id item, name = arg_name item, price = arg_price item,
      quantity = q, image = arg_image item, sku = arg_sku item,
      attributes = arg_attributes item\<rparr>"

definition addItem :: "AddItemArg \<Rightarrow> CartState \<Rightarrow> CartState" where
  "addItem item s =
     (let its = items s;
          q = quantityOrOne (arg_quantity item);
          existingItemIndex = findIndex (\<lambda>i. item_id i = arg_id item) its
      in if existingItemIndex > -1
         then (let k = nat existingItemIndex;
                   updatedItems = its[k := (its ! k)\<lparr>quantity := quantity (its ! k) + q\<rparr>]
               in s\<lparr>items := updatedItems\<rparr>)
         else s\<lparr>items := its @ [spreadItem item q], isOpen := True\<rparr>)"

definition updateItem :: "string \<Rightarrow> number \<Rightarrow> CartState \<Rightarrow> CartState" where
  "updateItem i q s =
     (if q \<le> 0
      then s\<lparr>items := filter (\<lambda>item. item_id item \<noteq> i) (items s)\<rparr>
      else s\<lparr>items := map (\<lambda>item. if item_id item = i then item\<lparr>quantity := q\<rparr> else item)
                             (items s)\<rparr>)"

definition removeItem :: "string \<Rightarrow> CartState \<Rightarrow> CartState" where
  "removeItem i s = s\<lparr>items := filter (\<lambda>item. item_id item \<noteq> i) (items s)\<rparr>"

definition clearCart :: "CartState \<Rightarrow> CartState" where
  "clearCart s = s\<lparr>items := []\<rparr>"

definition openCart :: "CartState \<Rightarrow> CartState" where
  "openCart s = s\<lparr>isOpen := True\<rparr>"

definition closeCart :: "CartState \<Rightarrow> CartState" where
  "closeCart s = s\<lparr>isOpen := False\<rparr>"

definition toggleCart :: "CartState \<Rightarrow> CartState" where
  "toggleCart s = s\<lparr>isOpen := \<not> isOpen s\<rparr>"

definition isItemInCart :: "string \<Rightarrow> CartState \<Rightarrow> bool" where
  "isItemInCart i s = list_ex (\<lambda>item. item_id item = i) (items s)"

definition getItem :: "string \<Rightarrow> CartState \<Rightarrow> CartItem option" where
  "getItem i s = find (\<lambda>item. item_id item = i) (items s)"

text \<open>\<open>reduce\<close> with an initial value is a left fold. The fields read are doubles:
  \<open>round64\<close> takes the rational of a field to the double it stands for (itself, when it
  is a double).\<close>

definition getItemsCount :: "CartState \<Rightarrow> double" where
  "getItemsCount s =
     foldl (\<lambda>count item. dadd count (round64 (quantity item))) (Finite 0) (items s)"

definition getSubtotal :: "CartState \<Rightarrow> double" where
  "getSubtotal s =
     foldl (\<lambda>total item. dadd total (dmul (round64 (price item)) (round64 (quantity item))))
       (Finite 0) (items s)"



text \<open>The value written to the browser's local storage under the key
  \<open>e3d-cart-storage\<close> is the object that \<open>partialize\<close> returns, here the list of its
  keys with their values.\<close>

datatype persisted_value = PersistedItems "CartItem list" | PersistedFlag bool

definition partialize :: "CartState \<Rightarrow> (string \<times> persisted_value) list" where
  "partialize state = [(''items'', PersistedItems (items state))]"

record CartTotals =
  subtotal :: double
  shipping :: double
  tax :: double
  total :: double
  itemsCount :: double

text \<open>The literals \<open>10\<close> and \<open>0.07\<close>: the doubles nearest to 10 and to 7/100.\<close>

definition shippingRate :: double where
  "shippingRate = round64 10"

definition taxRate :: double where
  "taxRate = round64 (7 / 100)"

definition useCartTotals :: "CartState \<Rightarrow> CartTotals" where
  "useCartTotals s =
     (let its = items s;
          sub = getSubtotal s;
          ship = (if length its > 0 then shippingRate else Finite 0);
          tx = dmul sub taxRate;
          tot = dadd (dadd sub ship) tx
      in \<lparr>subtotal = sub, shipping = ship, tax = tx, total = tot,
          itemsCount = getItemsCount s\<rparr>)"

text \<open>The operations of the store that a user of the hook can call, and a run of
  a sequence of them.\<close>

datatype cart_op =
    AddItem AddItemArg
  | UpdateItem string number
  | RemoveItem string
  | ClearCart
  | OpenCart
  | CloseCart
  | ToggleCart

fun applyCartOp :: "cart_op \<Rightarrow> CartState \<Rightarrow> CartState" where
  "applyCartOp (AddItem item) s = addItem item s"
| "applyCartOp (UpdateItem i q) s = updateItem i q s"
| "applyCartOp (RemoveItem i) s = removeItem i s"
| "applyCartOp ClearCart s = clearCart s"
| "applyCartOp OpenCart s = openCart s"
| "applyCartOp CloseCart s = closeCart s"
| "applyCartOp ToggleCart s = toggleCart s"

definition runCart :: "cart_op list \<Rightarrow> CartState \<Rightarrow> CartState" where
  "runCart ops s = foldl (\<lambda>st oper. applyCartOp oper st) s ops"

text \<open>Concrete values used to exercise the cart.\<close>

definition exampleArgA :: AddItemArg where
  "exampleArgA = \<lparr>arg_id = ''a'', arg_name = ''Chair'', arg_price = 5 / 2, arg_quantity = None,
     arg_image = None, arg_sku = None, arg_attributes = None\<rparr>"

definition exampleArgB :: AddItemArg where
  "exampleArgB = \<lparr>arg_id = ''b'', arg_name = ''Lamp'', arg_price = 4, arg_quantity = Some 3,
     arg_image = None, arg_sku = Some ''L-1'', arg_attributes = None\<rparr>"

definition exampleCart :: CartState where
  "exampleCart = \<lparr>items = [spreadItem exampleArgA 1, spreadItem exampleArgB 3], isOpen = True\<rparr>"



section \<open>The checkout form (CheckoutForm component)\<close>

text \<open>
  The component keeps \<open>currentStep\<close>, \<open>isSubmitting\<close> and \<open>orderId\<close> in React state,
  reads the cart store, and holds the form's values and validation errors in the form
  library. What it does to the outside (the request to \<open>/api/orders\<close>, the console,
  the \<open>onSuccess\<close> callback, the router, scrolling) is recorded in \<open>effects\<close>, oldest
  first. The form's values are of an arbitrary type \<open>'v\<close>. The validation of the form
  library is a parameter \<open>resolver\<close>: the errors (field group, message) that
  \<open>checkoutSchema\<close> reports on the given values. Each handler is modelled as one atomic
  transition, the answer of the network being an argument.
\<close>

record OrderLine =
  productId :: string
  line_quantity :: number
  line_price :: number

text \<open>The request body: the addresses, payment method and notes are read from the form
  values, kept whole here.\<close>

record 'v OrderBody =
  body_form :: 'v
  body_items :: "OrderLine list"
  body_total :: double

datatype 'v checkout_effect =
    ScrollTo int int
  | PostOrder "'v OrderBody"
  | ConsoleError string
  | OnSuccess "string option"
  | RouterPush string

text \<open>What \<open>fetch\<close> and \<open>response.json()\<close> can do.\<close>

datatype json_outcome = JsonThrows | JsonData "string option"

datatype fetch_outcome = NetworkError | HttpResponse bool json_outcome

text \<open>A thrown value is an \<open>Error\<close> with its message, or something else. An optional
  callback either returns or throws.\<close>

datatype thrown = ErrorObject string | OtherValue

datatype callback = Returns | Throws thrown

record CheckoutFormProps =
  onSuccess :: "callback option"
  successUrl :: string

record 'v CheckoutState =
  currentStep :: int
  isSubmitting :: bool
  orderId :: "string option"
  cart :: CartState
  formValues :: 'v
  formErrors :: "(string \<times> string) list"
  effects :: "'v checkout_effect list"

definition steps :: "(string \<times> string) list" where
  "steps = [(''shipping'', ''Shipping''), (''billing'', ''Billing''),
            (''payment'', ''Payment''), (''review'', ''Review'')]"

definition initialCheckout :: "'v \<Rightarrow> CartState \<Rightarrow> 'v CheckoutState" where
  "initialCheckout defaultValues c =
     \<lparr>currentStep = 0, isSubmitting = False, orderId = None, cart = c,
      formValues = defaultValues, formErrors = [], effects = []\<rparr>"

text \<open>\<open>methods.trigger(names)\<close>: validates the named fields, replaces their errors in
  the form state and answers whether they are free of errors.\<close>

definition trigger ::
  "('v \<Rightarrow> (string \<times> string) list) \<Rightarrow> string list \<Rightarrow> 'v CheckoutState
     \<Rightarrow> bool \<times> 'v CheckoutState" where
  "trigger resolver names s =
     (let found = filter (\<lambda>e. fst e \<in> set names) (resolver (formValues s));
          kept = filter (\<lambda>e. fst e \<notin> set names) (formErrors s)
      in (found = [], s\<lparr>formErrors := kept @ found\<rparr>))"

text \<open>The \<open>switch\<close> of \<open>handleNext\<close>.\<close>

definition fieldsToValidate :: "int \<Rightarrow> string list" where
  "fieldsToValidate step =
     (if step = 0 then [''shipping'']
      else if step = 1 then [''billing'']
      else if step = 2 then [''payment'']
      else if step = 3 then [''termsAccepted'']
      else [])"

text \<open>A template literal prints a missing value as \<open>undefined\<close>.\<close>

definition showOrderId :: "string option \<Rightarrow> string" where
  "showOrderId oid = (case oid of None \<Rightarrow> ''undefined'' | Some v \<Rightarrow> v)"

definition orderBody :: "'v CheckoutState \<Rightarrow> 'v OrderBody" where
  "orderBody s =
     \<lparr>body_form = formValues s,
      body_items = map (\<lambda>item. \<lparr>productId = item_id item, line_quantity = quantity item,
                                 line_price = price item\<rparr>) (items (cart s)),
      body_total = total (useCartTotals (cart s))\<rparr>"

text \<open>The \<open>catch\<close> and \<open>finally\<close> blocks of \<open>handleSubmit\<close>.\<close>

definition catchAndFinally :: "'v CheckoutState \<Rightarrow> 'v CheckoutState" where
  "catchAndFinally s =
     s\<lparr>effects := effects s @ [ConsoleError ''Error submitting order:''],
       isSubmitting := False\<rparr>"

definition handleSubmit ::
  "CheckoutFormProps \<Rightarrow> fetch_outcome \<Rightarrow> 'v CheckoutState \<Rightarrow> 'v CheckoutState" where
  "handleSubmit props outcome s =
     (let s1 = s\<lparr>isSubmitting := True\<rparr>;
          s2 = s1\<lparr>effects := effects s1 @ [PostOrder (orderBody s1)]\<rparr>
      in case outcome of
           NetworkError \<Rightarrow> catchAndFinally s2
         | HttpResponse ok js \<Rightarrow>
             if \<not> ok then catchAndFinally s2
             else (case js of
                     JsonThrows \<Rightarrow> catchAndFinally s2
                   | JsonData oid \<Rightarrow>
                       (let s3 = s2\<lparr>orderId := oid\<rparr>;
                            s4 = s3\<lparr>cart := clearCart (cart s3)\<rparr>;
                            push = (\<lambda>st. st\<lparr>effects := effects st @
                                      [RouterPush (successUrl props @ ''?orderId='' @ showOrderId oid)],
                                      isSubmitting := False\<rparr>)
                        in case onSuccess props of
                             None \<Rightarrow> push s4
                           | Some cb \<Rightarrow>
                               (let s5 = s4\<lparr>effects := effects s4 @ [OnSuccess oid]\<rparr>
                                in case cb of
                                     Throws err \<Rightarrow> catchAndFinally s5
                                   | Returns \<Rightarrow> push s5))))"

definition handleNext ::
  "('v \<Rightarrow> (string \<times> string) list) \<Rightarrow> CheckoutFormProps \<Rightarrow> fetch_outcome
     \<Rightarrow> 'v CheckoutState \<Rightarrow> 'v CheckoutState" where
  "handleNext resolver props outcome s =
     (let (result, s1) = trigger resolver (fieldsToValidate (currentStep s)) s
      in if result
         then (if currentStep s < int (length steps) - 1
               then s1\<lparr>currentStep := currentStep s + 1, effects := effects s1 @ [ScrollTo 0 0]\<rparr>
               else handleSubmit props outcome s1)
         else s1)"

definition handlePrevious :: "'v CheckoutState \<Rightarrow> 'v CheckoutState" where
  "handlePrevious s =
     (if currentStep s > 0
      then s\<lparr>currentStep := currentStep s - 1, effects := effects s @ [ScrollTo 0 0]\<rparr>
      else s)"

text \<open>The button of step \<open>index\<close> in the step navigation:
  \<open>index < currentStep && setCurrentStep(index)\<close>.\<close>

definition clickStep :: "int \<Rightarrow> 'v CheckoutState \<Rightarrow> 'v CheckoutState" where
  "clickStep index s = (if index < currentStep s then s\<lparr>currentStep := index\<rparr> else s)"

text \<open>What a user can do with the rendered form. With an empty cart the component
  renders the empty-cart notice instead of the form, so none of its controls exist; the
  navigation has one button for each index of \<open>steps\<close>.\<close>

datatype 'v checkout_event =
    EditForm 'v
  | ClickNext fetch_outcome
  | ClickPrevious
  | ClickStep int

definition checkoutEvent ::
  "('v \<Rightarrow> (string \<times> string) list) \<Rightarrow> CheckoutFormProps \<Rightarrow> 'v checkout_event
     \<Rightarrow> 'v CheckoutState \<Rightarrow> 'v CheckoutState" where
  "checkoutEvent resolver props e s =
     (if length (items (cart s)) = 0 then s
      else case e of
             EditForm v \<Rightarrow> s\<lparr>formValues := v\<rparr>
           | ClickNext outcome \<Rightarrow> handleNext resolver props outcome s
           | ClickPrevious \<Rightarrow> handlePrevious s
           | ClickStep index \<Rightarrow>
               if 0 \<le> index \<and> index < int (length steps) then clickStep index s else s)"

definition runCheckout ::
  "('v \<Rightarrow> (string \<times> string) list) \<Rightarrow> CheckoutFormProps \<Rightarrow> 'v checkout_event list
     \<Rightarrow> 'v CheckoutState \<Rightarrow> 'v CheckoutState" where
  "runCheckout resolver props es s = foldl (\<lambda>st e. checkoutEvent resolver props e st) s es"

text \<open>Observations on a state: the requests sent so far, the messages of the form
  state (all the \<open>errors.\<dots>.message\<close> paragraphs of the step components, of which the
  component shows those of the current step), and everything the component renders
  from.\<close>

fun isPostOrder :: "'v checkout_effect \<Rightarrow> bool" where
  "isPostOrder (PostOrder b) = True"
| "isPostOrder _ = False"

definition postedOrders :: "'v CheckoutState \<Rightarrow> 'v checkout_effect list" where
  "postedOrders s = filter isPostOrder (effects s)"

definition formMessages :: "'v CheckoutState \<Rightarrow> string list" where
  "formMessages s = map snd (formErrors s)"

definition rendered ::
  "'v CheckoutState \<Rightarrow> int \<times> bool \<times> CartState \<times> 'v \<times> (string \<times> string) list" where
  "rendered s = (currentStep s, isSubmitting s, cart s, formValues s, formErrors s)"

fun orderCreated :: "fetch_outcome \<Rightarrow> bool" where
  "orderCreated (HttpResponse ok (JsonData oid)) = ok"
| "orderCreated _ = False"

fun requestFailed :: "fetch_outcome \<Rightarrow> bool" where
  "requestFailed NetworkError = True"
| "requestFailed (HttpResponse ok js) = (\<not> ok)"

fun isClickNext :: "'v checkout_event \<Rightarrow> bool" where
  "isClickNext (ClickNext outcome) = True"
| "isClickNext _ = False"

text \<open>
  What each step has to validate, as the checkout is specified: the shipping section at
  the shipping step, the billing section at the billing step, the payment section at
  the payment step, and the acceptance of the terms at the review step. A step is valid
  on given form values when the schema reports no error in its fields.
\<close>

definition stepFieldGroups :: "string list list" where
  "stepFieldGroups = [[''shipping''], [''billing''], [''payment''], [''termsAccepted'']]"

definition stepFields :: "int \<Rightarrow> string list" where
  "stepFields k =
     (if 0 \<le> k \<and> k < int (length stepFieldGroups) then stepFieldGroups ! nat k else [])"

definition stepValid :: "('v \<Rightarrow> (string \<times> string) list) \<Rightarrow> int \<Rightarrow> 'v \<Rightarrow> bool" where
  "stepValid resolver k v = (filter (\<lambda>e. fst e \<in> set (stepFields k)) (resolver v) = [])"

text \<open>Step \<open>k\<close> was passed during the events \<open>es\<close>: at some moment the form was shown
  at step \<open>k\<close>, the user pressed the next button, and step \<open>k\<close> was valid on the
  values the form had then.\<close>

definition passedAt ::
  "('v \<Rightarrow> (string \<times> string) list) \<Rightarrow> CheckoutFormProps \<Rightarrow> 'v CheckoutState
     \<Rightarrow> 'v checkout_event list \<Rightarrow> int \<Rightarrow> nat \<Rightarrow> bool" where
  "passedAt resolver props s0 es k i =
     (let s = runCheckout resolver props (take i es) s0
      in i < length es \<and> isClickNext (es ! i) \<and> length (items (cart s)) \<noteq> 0
         \<and> currentStep s = k \<and> stepValid resolver k (formValues s))"

definition stepPassed ::
  "('v \<Rightarrow> (string \<times> string) list) \<Rightarrow> CheckoutFormProps \<Rightarrow> 'v CheckoutState
     \<Rightarrow> 'v checkout_event list \<Rightarrow> int \<Rightarrow> bool" where
  "stepPassed resolver props s0 es k =
     list_ex (passedAt resolver props s0 es k) [0..<length es]"

text \<open>Concrete values used to exercise the form.\<close>

text \<open>A small form: its value is the list of the field groups that are invalid.\<close>

definition exampleResolver :: "string list \<Rightarrow> (string \<times> string) list" where
  "exampleResolver v = map (\<lambda>f. (f, ''is required'')) v"

definition exampleProps :: CheckoutFormProps where
  "exampleProps = \<lparr>onSuccess = Some Returns, successUrl = ''/checkout/success''\<rparr>"

definition exampleReview :: "string list CheckoutState" where
  "exampleReview =
     \<lparr>currentStep = 3, isSubmitting = False, orderId = None, cart = exampleCart,
      formValues = [], formErrors = [], effects = []\<rparr>"

definition exampleAt :: "int \<Rightarrow> string list \<Rightarrow> string list CheckoutState" where
  "exampleAt k v = exampleReview\<lparr>currentStep := k, formValues := v\<rparr>"

definition exampleClicks :: "string list checkout_event list" where
  "exampleClicks =
     [ClickNext NetworkError, ClickNext NetworkError, ClickNext NetworkError,
      ClickNext (HttpResponse True (JsonData (Some ''o-1'')))]"

section \<open>The product listing (products router)\<close>

datatype SortBy = SortByName | SortByPrice | SortByCreatedAt | SortByUpdatedAt

datatype SortOrder = Asc | Desc

text \<open>
  What a client sends to \<open>getProducts\<close>: every field may be left out. The types leave
  out the values that the schema refuses for their type alone (a string where a number
  is expected, a number that is not an integer for an integer field, an unknown sort
  key).
\<close>

record ProductFilterRaw =
  raw_search :: "string option"
  raw_categoryId :: "int option"
  raw_brandId :: "int option"
  raw_minPrice :: "number option"
  raw_maxPrice :: "number option"
  raw_has3DModel :: "bool option"
  raw_inStock :: "bool option"
  raw_sortBy :: "SortBy option"
  raw_sortOrder :: "SortOrder option"
  raw_page :: "int option"
  raw_perPage :: "int option"

text \<open>The parsed input, \<open>z.infer<typeof productFilterSchema>\<close>: the defaults are
  filled in.\<close>

record ProductFilter =
  search :: "string option"
  categoryId :: "int option"
  brandId :: "int option"
  minPrice :: "number option"
  maxPrice :: "number option"
  has3DModel :: "bool option"
  inStock :: "bool option"
  sortBy :: SortBy
  sortOrder :: SortOrder
  page :: int
  perPage :: int

datatype zod_error = ZodError "(string \<times> string) list"

text \<open>A check on an optional field reports an issue only when the field is there.\<close>

definition issueWhen :: "'a option \<Rightarrow> ('a \<Rightarrow> bool) \<Rightarrow> string \<Rightarrow> string \<Rightarrow> (string \<times> string) list" where
  "issueWhen field bad path code =
     (case field of None \<Rightarrow> [] | Some v \<Rightarrow> if bad v then [(path, code)] else [])"

definition orDefault :: "'a option \<Rightarrow> 'a \<Rightarrow> 'a" where
  "orDefault field d = (case field of None \<Rightarrow> d | Some v \<Rightarrow> v)"

definition productFilterSchema :: "ProductFilterRaw \<Rightarrow> zod_error + ProductFilter" where
  "productFilterSchema raw =
     (let issues =
            issueWhen (raw_minPrice raw) (\<lambda>v. v < 0) ''minPrice'' ''too_small''
          @ issueWhen (raw_maxPrice raw) (\<lambda>v. v < 0) ''maxPrice'' ''too_small''
          @ issueWhen (raw_page raw) (\<lambda>v. v \<le> 0) ''page'' ''too_small''
          @ issueWhen (raw_perPage raw) (\<lambda>v. v \<le> 0) ''perPage'' ''too_small''
          @ issueWhen (raw_perPage raw) (\<lambda>v. v < 1) ''perPage'' ''too_small''
          @ issueWhen (raw_perPage raw) (\<lambda>v. v > 100) ''perPage'' ''too_big''
      in if issues = []
         then Inr \<lparr>search = raw_search raw, categoryId = raw_categoryId raw,
                   brandId = raw_brandId raw, minPrice = raw_minPrice raw,
                   maxPrice = raw_maxPrice raw, has3DModel = raw_has3DModel raw,
                   inStock = raw_inStock raw,
                   sortBy = orDefault (raw_sortBy raw) SortByCreatedAt,
                   sortOrder = orDefault (raw_sortOrder raw) Desc,
                   page = orDefault (raw_page raw) 1,
                   perPage = orDefault (raw_perPage raw) 20\<rparr>
         else Inl (ZodError issues))"

text \<open>The \<open>where\<close> object of the ORM: a conjunction of the clauses that are present.\<close>

datatype text_column = ColumnName | ColumnDescription | ColumnSku

datatype text_clause = ContainsInsensitive text_column string

record PriceClause =
  gte :: "number option"
  lte :: "number option"

datatype null_clause = NotNull | IsNull

datatype stock_clause = Gt int | Equals int

record ProductWhere =
  where_isActive :: bool
  where_OR :: "text_clause list option"
  where_categoryId :: "int option"
  where_brandId :: "int option"
  where_price :: "PriceClause option"
  where_model3dId :: "null_clause option"
  where_stock :: "stock_clause option"

text \<open>
  The conditions \<open>if (search)\<close>, \<open>if (categoryId)\<close> and \<open>if (brandId)\<close> test the
  truth value JavaScript gives the field: a missing field, the empty string and the
  number 0 are false. The other conditions compare with \<open>undefined\<close>.
\<close>

definition buildProductQuery :: "ProductFilter \<Rightarrow> ProductWhere" where
  "buildProductQuery input =
     (let w0 = \<lparr>where_isActive = True, where_OR = None, where_categoryId = None,
                where_brandId = None, where_price = None, where_model3dId = None,
                where_stock = None\<rparr>;
          w1 = (case search input of
                  None \<Rightarrow> w0
                | Some str \<Rightarrow>
                    if str \<noteq> []
                    then w0\<lparr>where_OR := Some
                           [ContainsInsensitive ColumnName str,
                            ContainsInsensitive ColumnDescription str,
                            ContainsInsensitive ColumnSku str]\<rparr>
                    else w0);
          w2 = (case categoryId input of
                  None \<Rightarrow> w1
                | Some c \<Rightarrow> if c \<noteq> 0 then w1\<lparr>where_categoryId := Some c\<rparr> else w1);
          w3 = (case brandId input of
                  None \<Rightarrow> w2
                | Some b \<Rightarrow> if b \<noteq> 0 then w2\<lparr>where_brandId := Some b\<rparr> else w2);
          w4 = (if minPrice input \<noteq> None \<or> maxPrice input \<noteq> None
                then (let p0 = \<lparr>gte = None, lte = None\<rparr>;
                          p1 = (if minPrice input \<noteq> None then p0\<lparr>gte := minPrice input\<rparr> else p0);
                          p2 = (if maxPrice input \<noteq> None then p1\<lparr>lte := maxPrice input\<rparr> else p1)
                      in w3\<lparr>where_price := Some p2\<rparr>)
                else w3);
          w5 = (case has3DModel input of
                  None \<Rightarrow> w4
                | Some b \<Rightarrow> w4\<lparr>where_model3dId := Some (if b then NotNull else IsNull)\<rparr>);
          w6 = (case inStock input of
                  None \<Rightarrow> w5
                | Some b \<Rightarrow> w5\<lparr>where_stock := Some (if b then Gt 0 else Equals 0)\<rparr>)
      in w6)"

text \<open>A row of the product table as \<open>findMany\<close> returns it with its \<open>include\<close>: the
  columns the procedure reads, and the number of reviews.\<close>

record Product =
  p_id :: string
  p_name :: string
  p_price :: number
  p_stock :: int
  p_model3dId :: "string option"
  p_count_reviews :: nat

text \<open>
  The ORM and the database behind it are not code of this repository. They are a
  parameter: \<open>db_matching w\<close> is the list of the rows that satisfy the where object
  \<open>w\<close>, \<open>db_ordered key dir rows\<close> is these rows in the order that \<open>orderBy\<close> asks
  for, and \<open>db_avgRating i\<close> is the average rating of the reviews of product \<open>i\<close>.
  \<open>findMany\<close> leaves out the first \<open>skip\<close> rows of the ordered result and returns at
  most \<open>take\<close> of the rest; \<open>count\<close> is the number of matching rows.
\<close>

record Database =
  db_matching :: "ProductWhere \<Rightarrow> Product list"
  db_ordered :: "SortBy \<Rightarrow> SortOrder \<Rightarrow> Product list \<Rightarrow> Product list"
  db_avgRating :: "string \<Rightarrow> number option"

definition findMany ::
  "Database \<Rightarrow> ProductWhere \<Rightarrow> SortBy \<Rightarrow> SortOrder \<Rightarrow> int \<Rightarrow> int \<Rightarrow> Product list" where
  "findMany db w key dir skip tk =
     take (nat tk) (drop (nat skip) (db_ordered db key dir (db_matching db w)))"

definition countProducts :: "Database \<Rightarrow> ProductWhere \<Rightarrow> nat" where
  "countProducts db w = length (db_matching db w)"

record ProductWithRating =
  out_product :: Product
  out_has3DModel :: bool
  out_reviewCount :: nat
  out_rating :: "number option"

record Pagination =
  pg_page :: int
  pg_perPage :: int
  pg_totalCount :: nat
  pg_totalPages :: int
  pg_hasNextPage :: bool
  pg_hasPreviousPage :: bool

record ProductsResult =
  products :: "ProductWithRating list"
  pagination :: Pagination

definition withRating :: "Database \<Rightarrow> Product \<Rightarrow> ProductWithRating" where
  "withRating db product =
     (let avgRating = (if p_count_reviews product > 0 then db_avgRating db (p_id product)
                       else None)
      in \<lparr>out_product = product,
          out_has3DModel = (case p_model3dId product of None \<Rightarrow> False | Some m \<Rightarrow> m \<noteq> []),
          out_reviewCount = p_count_reviews product, out_rating = avgRating\<rparr>)"

text \<open>The body of the query, run on a parsed input.\<close>

definition getProductsQuery :: "Database \<Rightarrow> ProductFilter \<Rightarrow> ProductsResult" where
  "getProductsQuery db input =
     (let skip = (page input - 1) * perPage input;
          tk = perPage input;
          w = buildProductQuery input;
          found = findMany db w (sortBy input) (sortOrder input) skip tk;
          totalCount = countProducts db w;
          productsWithRatings = map (withRating db) found;
          totalPages = \<lceil>(of_nat totalCount :: rat) / of_int (perPage input)\<rceil>;
          hasNextPage = (page input < totalPages);
          hasPreviousPage = (page input > 1)
      in \<lparr>products = productsWithRatings,
          pagination = \<lparr>pg_page = page input, pg_perPage = perPage input,
                         pg_totalCount = totalCount, pg_totalPages = totalPages,
                         pg_hasNextPage = hasNextPage,
                         pg_hasPreviousPage = hasPreviousPage\<rparr>\<rparr>)"

text \<open>The procedure: the input is parsed first, and a refused input is an error.\<close>

definition getProducts :: "Database \<Rightarrow> ProductFilterRaw \<Rightarrow> zod_error + ProductsResult" where
  "getProducts db raw =
     (case productFilterSchema raw of
        Inl e \<Rightarrow> Inl e
      | Inr input \<Rightarrow> Inr (getProductsQuery db input))"

text \<open>The inputs the specification calls valid: prices that are not negative, a page
  from 1 on, and between 1 and 100 products per page; each only when the field is
  there.\<close>

definition specValidFilter :: "ProductFilterRaw \<Rightarrow> bool" where
  "specValidFilter raw =
     ((case raw_minPrice raw of None \<Rightarrow> True | Some v \<Rightarrow> 0 \<le> v)
      \<and> (case raw_maxPrice raw of None \<Rightarrow> True | Some v \<Rightarrow> 0 \<le> v)
      \<and> (case raw_page raw of None \<Rightarrow> True | Some v \<Rightarrow> 1 \<le> v)
      \<and> (case raw_perPage raw of None \<Rightarrow> True | Some v \<Rightarrow> 1 \<le> v \<and> v \<le> 100))"

text \<open>Concrete values used to exercise the listing.\<close>

definition emptyFilterRaw :: ProductFilterRaw where
  "emptyFilterRaw =
     \<lparr>raw_search = None, raw_categoryId = None, raw_brandId = None, raw_minPrice = None,
      raw_maxPrice = None, raw_has3DModel = None, raw_inStock = None, raw_sortBy = None,
      raw_sortOrder = None, raw_page = None, raw_perPage = None\<rparr>"

definition exampleProduct :: "nat \<Rightarrow> Product" where
  "exampleProduct n =
     \<lparr>p_id = replicate n CHR ''x'', p_name = ''Sofa'', p_price = 100, p_stock = int n,
      p_model3dId = None, p_count_reviews = 0\<rparr>"

definition exampleDatabase :: Database where
  "exampleDatabase =
     \<lparr>db_matching = (\<lambda>w. map exampleProduct [1, 2, 3, 4, 5]),
      db_ordered = (\<lambda>key dir rows. rows),
      db_avgRating = (\<lambda>i. None)\<rparr>"

definition exampleZeroRaw :: ProductFilterRaw where
  "exampleZeroRaw = emptyFilterRaw\<lparr>raw_search := Some [], raw_categoryId := Some 0,
     raw_brandId := Some 0\<rparr>"

definition examplePageRaw :: ProductFilterRaw where
  "examplePageRaw = emptyFilterRaw\<lparr>raw_page := Some 2, raw_perPage := Some 2\<rparr>"

definition examplePageFilter :: ProductFilter where
  "examplePageFilter =
     \<lparr>search = None, categoryId = None, brandId = None, minPrice = None, maxPrice = None,
      has3DModel = None, inStock = None, sortBy = SortByCreatedAt, sortOrder = Desc,
      page = 2, perPage = 2\<rparr>"

definition exampleZeroFilter :: ProductFilter where
  "exampleZeroFilter =
     \<lparr>search = Some [], categoryId = Some 0, brandId = Some 0, minPrice = None,
      maxPrice = None, has3DModel = None, inStock = None, sortBy = SortByCreatedAt,
      sortOrder = Desc, page = 1, perPage = 20\<rparr>"

definition exampleFullFilter :: ProductFilter where
  "exampleFullFilter =
     \<lparr>search = Some ''sofa'', categoryId = Some 2, brandId = Some 3, minPrice = Some 0,
      maxPrice = Some 500, has3DModel = Some True, inStock = Some False,
      sortBy = SortByPrice, sortOrder = Asc, page = 1, perPage = 20\<rparr>"

section \<open>The login form (shared auth library and LoginForm component)\<close>

record LoginInput =
  email :: string
  password :: string

text \<open>The test \<open>z.string().email(\<dots>)\<close> applies is the validation library's; it is
  the parameter \<open>isEmail\<close>.\<close>

definition LoginSchema :: "(string \<Rightarrow> bool) \<Rightarrow> LoginInput \<Rightarrow> zod_error + LoginInput" where
  "LoginSchema isEmail input =
     (let issues =
            (if isEmail (email input) then [] else [(''email'', ''Invalid email format'')])
          @ (if length (password input) < 8
             then [(''password'', ''Password must be at least 8 characters'')] else [])
      in if issues = [] then Inr input else Inl (ZodError issues))"

datatype login_json = LoginJsonThrows thrown | LoginJson "string option" "string option"

datatype login_outcome = LoginFetchThrows thrown | LoginResponse bool login_json

datatype login_effect =
    PostLogin LoginInput
  | SetAuthToken "string option"
  | LoginOnSuccess
  | LoginRouterPush string

record LoginFormProps =
  login_onSuccess :: "callback option"
  redirectUrl :: string

record LoginFormState =
  login_values :: LoginInput
  login_errors :: "(string \<times> string) list"
  isLoading :: bool
  showPassword :: bool
  serverError :: "string option"
  login_effects :: "login_effect list"

definition initialLoginForm :: "string option \<Rightarrow> LoginFormState" where
  "initialLoginForm initialError =
     \<lparr>login_values = \<lparr>email = [], password = []\<rparr>, login_errors = [], isLoading = False,
      showPassword = False,
      serverError = (case initialError of None \<Rightarrow> None
                     | Some m \<Rightarrow> if m = [] then None else Some m),
      login_effects = []\<rparr>"

text \<open>The \<open>catch\<close> and \<open>finally\<close> blocks of \<open>onSubmit\<close>.\<close>

definition loginCatch :: "thrown \<Rightarrow> LoginFormState \<Rightarrow> LoginFormState" where
  "loginCatch err s =
     s\<lparr>serverError := Some (case err of
                              ErrorObject m \<Rightarrow> m
                            | OtherValue \<Rightarrow> ''An unexpected error occurred. Please try again.''),
       isLoading := False\<rparr>"

text \<open>\<open>result.message || 'Failed to login'\<close>\<close>

definition messageOr :: "string option \<Rightarrow> string \<Rightarrow> string" where
  "messageOr m d = (case m of None \<Rightarrow> d | Some v \<Rightarrow> if v = [] then d else v)"

definition onSubmit ::
  "LoginFormProps \<Rightarrow> login_outcome \<Rightarrow> LoginInput \<Rightarrow> LoginFormState \<Rightarrow> LoginFormState" where
  "onSubmit props outcome data s =
     (let s1 = s\<lparr>isLoading := True, serverError := None\<rparr>;
          s2 = s1\<lparr>login_effects := login_effects s1 @ [PostLogin data]\<rparr>
      in case outcome of
           LoginFetchThrows err \<Rightarrow> loginCatch err s2
         | LoginResponse ok js \<Rightarrow>
             (case js of
                LoginJsonThrows err \<Rightarrow> loginCatch err s2
              | LoginJson message token \<Rightarrow>
                  if \<not> ok then loginCatch (ErrorObject (messageOr message ''Failed to login'')) s2
                  else (let s3 = s2\<lparr>login_effects := login_effects s2 @ [SetAuthToken token]\<rparr>;
                            push = (\<lambda>st. st\<lparr>login_effects := login_effects st @
                                      [LoginRouterPush (redirectUrl props)],
                                      isLoading := False\<rparr>)
                        in case login_onSuccess props of
                             None \<Rightarrow> push s3
                           | Some cb \<Rightarrow>
                               (let s4 = s3\<lparr>login_effects := login_effects s3 @ [LoginOnSuccess]\<rparr>
                                in case cb of
                                     Throws err \<Rightarrow> loginCatch err s4
                                   | Returns \<Rightarrow> push s4))))"

text \<open>The form's submit event, \<open>handleSubmit(onSubmit)\<close> of the form library with the
  schema as resolver: the values are validated, and \<open>onSubmit\<close> runs on them only when
  the schema accepts them; otherwise the issues become the form's errors.\<close>

definition submitLoginForm ::
  "(string \<Rightarrow> bool) \<Rightarrow> LoginFormProps \<Rightarrow> login_outcome \<Rightarrow> LoginFormState \<Rightarrow> LoginFormState" where
  "submitLoginForm isEmail props outcome s =
     (case LoginSchema isEmail (login_values s) of
        Inl (ZodError issues) \<Rightarrow> s\<lparr>login_errors := issues\<rparr>
      | Inr data \<Rightarrow> onSubmit props outcome data (s\<lparr>login_errors := []\<rparr>))"

fun isPostLogin :: "login_effect \<Rightarrow> bool" where
  "isPostLogin (PostLogin d) = True"
| "isPostLogin _ = False"

text \<open>A stand-in for the library's test in examples: one at sign, with something on
  both sides.\<close>

definition exampleIsEmail :: "string \<Rightarrow> bool" where
  "exampleIsEmail str =
     (count_list str CHR ''@'' = 1 \<and> hd str \<noteq> CHR ''@'' \<and> last str \<noteq> CHR ''@'')"

definition postedLogins :: "LoginFormState \<Rightarrow> login_effect list" where
  "postedLogins s = filter isPostLogin (login_effects s)"

text \<open>Concrete values used to exercise the login form.\<close>

definition exampleGoodLogin :: LoginInput where
  "exampleGoodLogin = \<lparr>email = ''a@b.co'', password = ''12345678''\<rparr>"

definition exampleShortLogin :: LoginInput where
  "exampleShortLogin = \<lparr>email = ''a@b.co'', password = ''1234567''\<rparr>"

definition exampleBadEmailLogin :: LoginInput where
  "exampleBadEmailLogin = \<lparr>email = ''ab.co'', password = ''12345678''\<rparr>"

definition exampleLoginProps :: LoginFormProps where
  "exampleLoginProps = \<lparr>login_onSuccess = None, redirectUrl = ''/''\<rparr>"

section \<open>Properties of the double arithmetic\<close>







lemma pow2_of_nat: "pow2 (int n) = 2 ^ n"
  by (simp add: pow2_def)


















section \<open>Properties of the cart store\<close>

lemma round64_zero: "round64 0 = Finite 0"
  by (simp add: round64_def roundNearest_def)























lemma findIndex_ge: "- 1 \<le> findIndex P xs"
  by (induction xs) (auto simp: Let_def)

lemma findIndex_none: "findIndex P xs = - 1 \<longleftrightarrow> (\<forall>x \<in> set xs. \<not> P x)"
proof (induction xs)
  case Nil
  then show ?case by simp
next
  case (Cons x xs)
  with findIndex_ge[of P xs] show ?case by (auto simp: Let_def)
qed

lemma findIndex_found:
  "findIndex P xs \<noteq> - 1 \<Longrightarrow>
     nat (findIndex P xs) < length xs \<and> P (xs ! nat (findIndex P xs))
     \<and> (\<forall>j < nat (findIndex P xs). \<not> P (xs ! j))"
proof (induction xs)
  case Nil
  then show ?case by simp
next
  case (Cons x xs)
  show ?case
  proof (cases "P x")
    case True
    then show ?thesis by simp
  next
    case False
    with Cons.prems have ne: "findIndex P xs \<noteq> - 1" by (auto simp: Let_def)
    with findIndex_ge[of P xs] have ge: "0 \<le> findIndex P xs" by linarith
    from ne False have eq: "findIndex P (x # xs) = findIndex P xs + 1" by (simp add: Let_def)
    from ge have n: "nat (findIndex P xs + 1) = Suc (nat (findIndex P xs))" by linarith
    from Cons.IH[OF ne] False show ?thesis
      unfolding eq n by (auto simp: less_Suc_eq_0_disj)
  qed
qed


lemma addItem_existing:
  assumes "arg_id item \<in> item_id ` set (items s)"
  shows "\<exists>k < length (items s).
           item_id (items s ! k) = arg_id item
           \<and> (\<forall>j < k. item_id (items s ! j) \<noteq> arg_id item)
           \<and> addItem item s = s\<lparr>items := (items s)[k := (items s ! k)
                 \<lparr>quantity := quantity (items s ! k) + quantityOrOne (arg_quantity item)\<rparr>]\<rparr>"
proof -
  let ?P = "\<lambda>i. item_id i = arg_id item"
  from assms have ne: "findIndex ?P (items s) \<noteq> - 1"
    by (auto simp: findIndex_none)
  with findIndex_ge[of ?P "items s"] have gt: "findIndex ?P (items s) > - 1" by linarith
  from findIndex_found[OF ne] gt show ?thesis
    by (intro exI[of _ "nat (findIndex ?P (items s))"]) (simp add: addItem_def Let_def)
qed

lemma addItem_new:
  assumes "arg_id item \<notin> item_id ` set (items s)"
  shows "addItem item s
           = s\<lparr>items := items s @ [spreadItem item (quantityOrOne (arg_quantity item))],
                isOpen := True\<rparr>"
proof -
  from assms have "findIndex (\<lambda>i. item_id i = arg_id item) (items s) = - 1"
    by (force simp: findIndex_none)
  then show ?thesis by (simp add: addItem_def Let_def)
qed

lemma map_id_update_quantity:
  "k < length xs \<Longrightarrow> map item_id (xs[k := (xs ! k)\<lparr>quantity := q\<rparr>]) = map item_id xs"
  by (simp add: map_update list_update_same_conv)

lemma addItem_ids:
  "map item_id (items (addItem item s))
     = (if arg_id item \<in> item_id ` set (items s) then map item_id (items s)
        else map item_id (items s) @ [arg_id item])"
proof (cases "arg_id item \<in> item_id ` set (items s)")
  case True
  from addItem_existing[OF True] obtain k where "k < length (items s)"
    and "addItem item s = s\<lparr>items := (items s)[k := (items s ! k)
                 \<lparr>quantity := quantity (items s ! k) + quantityOrOne (arg_quantity item)\<rparr>]\<rparr>"
    by blast
  with True show ?thesis by (simp add: map_id_update_quantity)
next
  case False
  then show ?thesis by (simp add: addItem_new spreadItem_def)
qed

lemma addItem_distinct:
  "distinct (map item_id (items s)) \<Longrightarrow> distinct (map item_id (items (addItem item s)))"
  by (simp add: addItem_ids)

lemma map_id_set_quantity:
  "map item_id (map (\<lambda>item. if item_id item = i then item\<lparr>quantity := q\<rparr> else item) xs)
     = map item_id xs"
  by (induction xs) auto

lemma updateItem_distinct:
  "distinct (map item_id (items s)) \<Longrightarrow> distinct (map item_id (items (updateItem i q s)))"
  by (simp add: updateItem_def distinct_map_filter map_id_set_quantity del: map_map)

lemma removeItem_distinct:
  "distinct (map item_id (items s)) \<Longrightarrow> distinct (map item_id (items (removeItem i s)))"
  by (simp add: removeItem_def distinct_map_filter)

lemma applyCartOp_distinct:
  "distinct (map item_id (items s)) \<Longrightarrow> distinct (map item_id (items (applyCartOp oper s)))"
  by (cases oper)
     (simp_all add: addItem_distinct updateItem_distinct removeItem_distinct
        clearCart_def openCart_def closeCart_def toggleCart_def)

lemma runCart_distinct:
  "distinct (map item_id (items s)) \<Longrightarrow> distinct (map item_id (items (runCart ops s)))"
  unfolding runCart_def
  by (induction ops arbitrary: s) (simp_all add: applyCartOp_distinct)

lemma filter_distinct_at:
  assumes "distinct (map f xs)" "k < length xs"
  shows "filter (\<lambda>x. f x \<noteq> f (xs ! k)) xs = take k xs @ drop (Suc k) xs"
proof -
  have xs: "xs = take k xs @ xs ! k # drop (Suc k) xs"
    using assms(2) by (simp add: id_take_nth_drop)
  with assms(1) have d: "distinct (map f (take k xs) @ f (xs ! k) # map f (drop (Suc k) xs))"
    by (metis list.simps(9) map_append)
  then have "\<forall>x \<in> set (take k xs). f x \<noteq> f (xs ! k)"
    and "\<forall>x \<in> set (drop (Suc k) xs). f x \<noteq> f (xs ! k)"
    by (auto simp: image_iff)
  then have "filter (\<lambda>x. f x \<noteq> f (xs ! k)) (take k xs @ xs ! k # drop (Suc k) xs)
               = take k xs @ drop (Suc k) xs"
    by (simp add: filter_id_conv)
  with xs show ?thesis by metis
qed

lemma filter_absent:
  "i \<notin> f ` set xs \<Longrightarrow> filter (\<lambda>x. f x \<noteq> i) xs = xs"
  by (auto simp: filter_id_conv)

text \<open>
  Claim C2. Starting from the empty cart, after every sequence of store operations the
  ids in the item list are pairwise distinct. \<open>addItem\<close> with an id already present
  leaves the list of ids as it is and only raises the quantity of the first (hence the
  only) entry with that id, by the given quantity or by 1. \<open>removeItem\<close> keeps the
  entries with another id, in their order: with distinct ids it cuts out exactly the
  entry at the id's position, and it leaves the cart alone when the id is absent.
\<close>

theorem cart_ids_distinct_merge_remove:
  "distinct (map item_id (items (runCart ops initialCart)))
   \<and> (arg_id item \<in> item_id ` set (items s) \<longrightarrow>
        map item_id (items (addItem item s)) = map item_id (items s)
        \<and> (\<exists>k < length (items s).
              item_id (items s ! k) = arg_id item
              \<and> (\<forall>j < k. item_id (items s ! j) \<noteq> arg_id item)
              \<and> addItem item s = s\<lparr>items := (items s)[k := (items s ! k)
                   \<lparr>quantity := quantity (items s ! k) + quantityOrOne (arg_quantity item)\<rparr>]\<rparr>))
   \<and> items (removeItem i s) = filter (\<lambda>x. item_id x \<noteq> i) (items s)
   \<and> isOpen (removeItem i s) = isOpen s
   \<and> (distinct (map item_id (items s)) \<longrightarrow>
        (\<forall>k < length (items s).
           items (removeItem (item_id (items s ! k)) s) = take k (items s) @ drop (Suc k) (items s))
        \<and> (i \<notin> item_id ` set (items s) \<longrightarrow> removeItem i s = s))"
proof (intro conjI impI allI)
  show "distinct (map item_id (items (runCart ops initialCart)))"
    by (rule runCart_distinct) (simp add: initialCart_def)
next
  assume "arg_id item \<in> item_id ` set (items s)"
  then show "map item_id (items (addItem item s)) = map item_id (items s)"
    by (simp add: addItem_ids)
next
  assume "arg_id item \<in> item_id ` set (items s)"
  then show "\<exists>k < length (items s).
              item_id (items s ! k) = arg_id item
              \<and> (\<forall>j < k. item_id (items s ! j) \<noteq> arg_id item)
              \<and> addItem item s = s\<lparr>items := (items s)[k := (items s ! k)
                   \<lparr>quantity := quantity (items s ! k) + quantityOrOne (arg_quantity item)\<rparr>]\<rparr>"
    by (rule addItem_existing)
next
  show "items (removeItem i s) = filter (\<lambda>x. item_id x \<noteq> i) (items s)"
    by (simp add: removeItem_def)
next
  show "isOpen (removeItem i s) = isOpen s"
    by (simp add: removeItem_def)
next
  fix k
  assume "distinct (map item_id (items s))" and "k < length (items s)"
  then show "items (removeItem (item_id (items s ! k)) s)
               = take k (items s) @ drop (Suc k) (items s)"
    by (simp add: removeItem_def filter_distinct_at)
next
  assume "i \<notin> item_id ` set (items s)"
  then show "removeItem i s = s"
    by (simp add: removeItem_def filter_absent)
qed

theorem cart_ids_distinct_merge_remove_witness:
  "distinct (map item_id (items (runCart
       [AddItem exampleArgA, AddItem exampleArgB, AddItem exampleArgA, RemoveItem ''b''] initialCart)))
   \<and> arg_id exampleArgB \<in> item_id ` set (items exampleCart)
   \<and> items (addItem exampleArgB exampleCart) = [spreadItem exampleArgA 1, spreadItem exampleArgB 6]
   \<and> distinct (map item_id (items exampleCart))
   \<and> items (removeItem ''b'' exampleCart) = [spreadItem exampleArgA 1]
   \<and> ''c'' \<notin> item_id ` set (items exampleCart)
   \<and> removeItem ''c'' exampleCart = exampleCart"
  using cart_ids_distinct_merge_remove
    [of "[AddItem exampleArgA, AddItem exampleArgB, AddItem exampleArgA, RemoveItem ''b'']"
        exampleArgB exampleCart "''c''"]
  by (simp add: exampleCart_def exampleArgA_def exampleArgB_def spreadItem_def addItem_def
      removeItem_def quantityOrOne_def Let_def)

text \<open>
  Claim C7. What is persisted is the object with the single key \<open>items\<close>: the
  \<open>isOpen\<close> flag is not among its keys and does not influence it, and \<open>openCart\<close>,
  \<open>closeCart\<close> and \<open>toggleCart\<close> leave the item list, and with it the persisted value,
  unchanged.
\<close>

theorem persist_items_only:
  "partialize s = [(''items'', PersistedItems (items s))]
   \<and> map fst (partialize s) = [''items'']
   \<and> ''isOpen'' \<notin> set (map fst (partialize s))
   \<and> partialize (s\<lparr>isOpen := b\<rparr>) = partialize s
   \<and> items (openCart s) = items s
   \<and> items (closeCart s) = items s
   \<and> items (toggleCart s) = items s
   \<and> partialize (openCart s) = partialize s
   \<and> partialize (closeCart s) = partialize s
   \<and> partialize (toggleCart s) = partialize s"
  by (simp add: partialize_def openCart_def closeCart_def toggleCart_def)

text \<open>
  Claim C9. For a quantity \<open>q \<le> 0\<close>, \<open>updateItem i q\<close> gives exactly the state that
  \<open>removeItem i\<close> gives. For \<open>q > 0\<close> it sets the quantity of the entries with id
  \<open>i\<close> to \<open>q\<close> and leaves every other entry, the length of the list and the
  \<open>isOpen\<close> flag unchanged.
\<close>

theorem updateItem_removes_or_sets:
  "(q \<le> 0 \<longrightarrow> updateItem i q s = removeItem i s)
   \<and> (0 < q \<longrightarrow>
        isOpen (updateItem i q s) = isOpen s
        \<and> length (items (updateItem i q s)) = length (items s)
        \<and> (\<forall>k < length (items s).
              items (updateItem i q s) ! k
                = (if item_id (items s ! k) = i then (items s ! k)\<lparr>quantity := q\<rparr>
                   else items s ! k)))"
  by (simp add: updateItem_def removeItem_def)

theorem updateItem_removes_or_sets_witness:
  "(0::rat) \<le> 0 \<and> updateItem ''a'' 0 exampleCart = removeItem ''a'' exampleCart
   \<and> (-2::rat) \<le> 0 \<and> updateItem ''a'' (-2) exampleCart = removeItem ''a'' exampleCart
   \<and> (0::rat) < 5
   \<and> items (updateItem ''b'' 5 exampleCart) = [spreadItem exampleArgA 1, spreadItem exampleArgB 5]"
  using updateItem_removes_or_sets [of 0 "''a''" exampleCart]
    updateItem_removes_or_sets [of "-2" "''a''" exampleCart]
    updateItem_removes_or_sets [of 5 "''b''" exampleCart]
  by (simp add: exampleCart_def exampleArgA_def exampleArgB_def spreadItem_def updateItem_def)

section \<open>Properties of the checkout form\<close>

lemma length_steps: "int (length steps) = 4"
  by (simp add: steps_def)

lemma trigger_snd_fields:
  "currentStep (snd (trigger r ns s)) = currentStep s"
  "isSubmitting (snd (trigger r ns s)) = isSubmitting s"
  "orderId (snd (trigger r ns s)) = orderId s"
  "cart (snd (trigger r ns s)) = cart s"
  "formValues (snd (trigger r ns s)) = formValues s"
  "effects (snd (trigger r ns s)) = effects s"
  by (simp_all add: trigger_def Let_def)

lemma trigger_fst:
  "fst (trigger r ns s) = (filter (\<lambda>e. fst e \<in> set ns) (r (formValues s)) = [])"
  by (simp add: trigger_def Let_def)

lemma fieldsToValidate_stepFields: "fieldsToValidate k = stepFields k"
proof -
  consider "k < 0" | "k = 0" | "k = 1" | "k = 2" | "k = 3" | "3 < k"
    by linarith
  then show ?thesis
    by cases (simp_all add: fieldsToValidate_def stepFields_def stepFieldGroups_def)
qed

lemma trigger_stepValid:
  "fst (trigger r (fieldsToValidate k) s) = stepValid r k (formValues s)"
  by (simp add: trigger_fst fieldsToValidate_stepFields stepValid_def)

lemma handleSubmit_currentStep: "currentStep (handleSubmit props outcome s) = currentStep s"
  by (simp add: handleSubmit_def catchAndFinally_def Let_def
      split: fetch_outcome.split json_outcome.split option.split callback.split)

lemma handleSubmit_formErrors: "formErrors (handleSubmit props outcome s) = formErrors s"
  by (simp add: handleSubmit_def catchAndFinally_def Let_def
      split: fetch_outcome.split json_outcome.split option.split callback.split)

lemma handleSubmit_cart:
  "cart (handleSubmit props outcome s) = (if orderCreated outcome then clearCart (cart s) else cart s)"
  by (cases outcome rule: orderCreated.cases)
     (simp_all add: handleSubmit_def catchAndFinally_def Let_def
        split: option.split callback.split)

lemma handleSubmit_posted:
  "postedOrders (handleSubmit props outcome s)
     = postedOrders s @ [PostOrder (orderBody (s\<lparr>isSubmitting := True\<rparr>))]"
  by (simp add: handleSubmit_def catchAndFinally_def postedOrders_def Let_def
      split: fetch_outcome.split json_outcome.split option.split callback.split)

lemma handleSubmit_failed:
  "\<not> orderCreated outcome \<Longrightarrow>
     handleSubmit props outcome s
       = s\<lparr>isSubmitting := False,
           effects := effects s @ [PostOrder (orderBody (s\<lparr>isSubmitting := True\<rparr>)),
                                   ConsoleError ''Error submitting order:'']\<rparr>"
  by (cases outcome rule: orderCreated.cases)
     (simp_all add: handleSubmit_def catchAndFinally_def Let_def)

lemma handleNext_currentStep:
  "currentStep (handleNext r props outcome s)
     = (if fst (trigger r (fieldsToValidate (currentStep s)) s) \<and> currentStep s < 3
        then currentStep s + 1 else currentStep s)"
  by (simp add: handleNext_def length_steps handleSubmit_currentStep trigger_snd_fields
      split: prod.split)
     (metis snd_conv trigger_snd_fields(1))

lemma postedOrders_scroll:
  "postedOrders (s\<lparr>currentStep := k, effects := effects s @ [ScrollTo a b]\<rparr>) = postedOrders s"
  by (simp add: postedOrders_def)

lemma postedOrders_same_effects: "effects a = effects b \<Longrightarrow> postedOrders a = postedOrders b"
  by (simp add: postedOrders_def)

lemma handleNext_posted:
  "postedOrders (handleNext r props outcome s)
     = (if fst (trigger r (fieldsToValidate (currentStep s)) s) \<and> \<not> currentStep s < 3
        then postedOrders s @ [PostOrder (orderBody (snd (trigger r (fieldsToValidate (currentStep s)) s)
                                   \<lparr>isSubmitting := True\<rparr>))]
        else postedOrders s)"
proof (cases "trigger r (fieldsToValidate (currentStep s)) s")
  case (Pair res s1)
  with trigger_snd_fields(6)[of r "fieldsToValidate (currentStep s)" s]
  have "effects s1 = effects s"
    by simp
  then have "postedOrders s1 = postedOrders s"
    by (rule postedOrders_same_effects)
  with Pair show ?thesis
    by (simp add: handleNext_def length_steps handleSubmit_posted postedOrders_scroll)
qed

lemma handlePrevious_currentStep:
  "currentStep (handlePrevious s) = (if 0 < currentStep s then currentStep s - 1 else currentStep s)"
  by (simp add: handlePrevious_def)

lemma handlePrevious_posted: "postedOrders (handlePrevious s) = postedOrders s"
  by (simp add: handlePrevious_def postedOrders_scroll)

lemma clickStep_currentStep:
  "currentStep (clickStep index s) = (if index < currentStep s then index else currentStep s)"
  by (simp add: clickStep_def)

lemma clickStep_posted: "postedOrders (clickStep index s) = postedOrders s"
  by (simp add: clickStep_def postedOrders_def)

lemma checkoutEvent_currentStep:
  "currentStep (checkoutEvent r props e s)
     = (if length (items (cart s)) = 0 then currentStep s
        else case e of
               EditForm v \<Rightarrow> currentStep s
             | ClickNext outcome \<Rightarrow>
                 if fst (trigger r (fieldsToValidate (currentStep s)) s) \<and> currentStep s < 3
                 then currentStep s + 1 else currentStep s
             | ClickPrevious \<Rightarrow> if 0 < currentStep s then currentStep s - 1 else currentStep s
             | ClickStep index \<Rightarrow>
                 if 0 \<le> index \<and> index < 4 \<and> index < currentStep s then index else currentStep s)"
  by (simp add: checkoutEvent_def handleNext_currentStep handlePrevious_currentStep
      clickStep_currentStep length_steps split: checkout_event.split)

lemma postedOrders_edit: "postedOrders (s\<lparr>formValues := v\<rparr>) = postedOrders s"
  by (simp add: postedOrders_def)

lemma checkoutEvent_posted:
  "postedOrders (checkoutEvent r props e s)
     = (if length (items (cart s)) \<noteq> 0 \<and> isClickNext e
           \<and> fst (trigger r (fieldsToValidate (currentStep s)) s) \<and> \<not> currentStep s < 3
        then postedOrders s @ [PostOrder (orderBody (snd (trigger r (fieldsToValidate (currentStep s)) s)
                                   \<lparr>isSubmitting := True\<rparr>))]
        else postedOrders s)"
  by (cases e)
     (simp_all add: checkoutEvent_def handleNext_posted handlePrevious_posted clickStep_posted
        postedOrders_edit)

lemma runCheckout_snoc:
  "runCheckout r props (es @ [e]) s = checkoutEvent r props e (runCheckout r props es s)"
  by (simp add: runCheckout_def)

lemma stepPassed_iff:
  "stepPassed r props s0 es k \<longleftrightarrow> (\<exists>i < length es. passedAt r props s0 es k i)"
  by (auto simp: stepPassed_def list_ex_iff)

lemma passedAt_snoc:
  "passedAt r props s0 es k i \<Longrightarrow> passedAt r props s0 (es @ [e]) k i"
  by (simp add: passedAt_def Let_def nth_append)

lemma stepPassed_snoc:
  "stepPassed r props s0 es k \<Longrightarrow> stepPassed r props s0 (es @ [e]) k"
proof -
  assume "stepPassed r props s0 es k"
  then obtain i where "i < length es" and "passedAt r props s0 es k i"
    unfolding stepPassed_iff by blast
  then have "i < length (es @ [e])" and "passedAt r props s0 (es @ [e]) k i"
    by (simp_all add: passedAt_snoc)
  then show ?thesis
    unfolding stepPassed_iff by blast
qed

lemma stepPassed_now:
  assumes "isClickNext e" "length (items (cart (runCheckout r props es s0))) \<noteq> 0"
    and "fst (trigger r (fieldsToValidate (currentStep (runCheckout r props es s0)))
           (runCheckout r props es s0))"
  shows "stepPassed r props s0 (es @ [e]) (currentStep (runCheckout r props es s0))"
  unfolding stepPassed_iff
  using assms by (intro exI[of _ "length es"]) (simp add: passedAt_def trigger_stepValid)

lemma checkoutEvent_step_cases:
  "currentStep (checkoutEvent r props e s) \<le> currentStep s
   \<or> (currentStep (checkoutEvent r props e s) = currentStep s + 1
      \<and> length (items (cart s)) \<noteq> 0 \<and> isClickNext e
      \<and> fst (trigger r (fieldsToValidate (currentStep s)) s) \<and> currentStep s < 3)"
  by (cases e) (simp_all add: checkoutEvent_currentStep)

lemma checkoutEvent_step_nonneg:
  "0 \<le> currentStep s \<Longrightarrow> 0 \<le> currentStep (checkoutEvent r props e s)"
  by (cases e) (simp_all add: checkoutEvent_currentStep)

lemma checkoutEvent_posted_cases:
  "postedOrders (checkoutEvent r props e s) = postedOrders s
   \<or> (length (items (cart s)) \<noteq> 0 \<and> isClickNext e
      \<and> fst (trigger r (fieldsToValidate (currentStep s)) s) \<and> \<not> currentStep s < 3
      \<and> currentStep (checkoutEvent r props e s) = currentStep s)"
  by (cases e) (simp_all add: checkoutEvent_posted checkoutEvent_currentStep)

lemma initialCheckout_fields:
  "currentStep (initialCheckout v c) = 0"
  "postedOrders (initialCheckout v c) = []"
  by (simp_all add: initialCheckout_def postedOrders_def)

lemma checkout_invariant:
  fixes r :: "'v \<Rightarrow> (string \<times> string) list" and v :: 'v and c :: CartState
  defines "s0 \<equiv> initialCheckout v c"
  shows "0 \<le> currentStep (runCheckout r props es s0)
         \<and> currentStep (runCheckout r props es s0) \<le> 3
         \<and> (\<forall>k. 0 \<le> k \<and> k < currentStep (runCheckout r props es s0)
                \<longrightarrow> stepPassed r props s0 es k)
         \<and> (postedOrders (runCheckout r props es s0) \<noteq> []
              \<longrightarrow> (\<forall>k. 0 \<le> k \<and> k \<le> 3 \<longrightarrow> stepPassed r props s0 es k))"
proof (induction es rule: rev_induct)
  case Nil
  show ?case
    by (auto simp: runCheckout_def s0_def initialCheckout_fields)
next
  case (snoc e es)
  let ?s = "runCheckout r props es s0"
  let ?s' = "checkoutEvent r props e ?s"
  have run: "runCheckout r props (es @ [e]) s0 = ?s'"
    by (rule runCheckout_snoc)
  from snoc have lo: "0 \<le> currentStep ?s" and hi: "currentStep ?s \<le> 3"
    and below: "\<And>k. 0 \<le> k \<Longrightarrow> k < currentStep ?s \<Longrightarrow> stepPassed r props s0 es k"
    and sent: "postedOrders ?s \<noteq> [] \<Longrightarrow> 0 \<le> k \<Longrightarrow> k \<le> 3 \<Longrightarrow> stepPassed r props s0 es k" for k
    by blast+
  have below': "stepPassed r props s0 (es @ [e]) k" if "0 \<le> k" "k < currentStep ?s" for k
    using below[OF that] by (rule stepPassed_snoc)
  have lo': "0 \<le> currentStep ?s'"
    using lo by (rule checkoutEvent_step_nonneg)
  have hi': "currentStep ?s' \<le> 3"
    using checkoutEvent_step_cases[of r props e ?s] hi by linarith
  have passed': "stepPassed r props s0 (es @ [e]) k" if k: "0 \<le> k" "k < currentStep ?s'" for k
  proof -
    from checkoutEvent_step_cases[of r props e ?s]
    consider "currentStep ?s' \<le> currentStep ?s"
      | "currentStep ?s' = currentStep ?s + 1" "length (items (cart ?s)) \<noteq> 0" "isClickNext e"
        "fst (trigger r (fieldsToValidate (currentStep ?s)) ?s)"
      by blast
    then show ?thesis
    proof cases
      case 1
      with k show ?thesis by (intro below') simp_all
    next
      case 2
      show ?thesis
      proof (cases "k < currentStep ?s")
        case True
        with k show ?thesis by (intro below') simp_all
      next
        case False
        with k 2(1) have "k = currentStep ?s" by simp
        with stepPassed_now[OF 2(3) 2(2) 2(4)] show ?thesis by simp
      qed
    qed
  qed
  have sent': "stepPassed r props s0 (es @ [e]) k"
    if p: "postedOrders ?s' \<noteq> []" and k: "0 \<le> k" "k \<le> 3" for k
  proof -
    from checkoutEvent_posted_cases[of r props e ?s]
    consider "postedOrders ?s' = postedOrders ?s"
      | "length (items (cart ?s)) \<noteq> 0" "isClickNext e"
        "fst (trigger r (fieldsToValidate (currentStep ?s)) ?s)" "\<not> currentStep ?s < 3"
      by blast
    then show ?thesis
    proof cases
      case 1
      with p have "postedOrders ?s \<noteq> []" by simp
      from sent[OF this k] show ?thesis by (rule stepPassed_snoc)
    next
      case 2
      from 2(4) hi have three: "currentStep ?s = 3" by simp
      show ?thesis
      proof (cases "k < 3")
        case True
        with k three show ?thesis by (intro below') simp_all
      next
        case False
        with k three have "k = currentStep ?s" by simp
        with stepPassed_now[OF 2(2) 2(1) 2(3)] show ?thesis by simp
      qed
    qed
  qed
  from lo' hi' passed' sent' show ?case
    unfolding run by blast
qed

lemma handleNext_cart:
  "cart (handleNext r props outcome s)
     = (if fst (trigger r (fieldsToValidate (currentStep s)) s) \<and> \<not> currentStep s < 3
           \<and> orderCreated outcome
        then clearCart (cart s) else cart s)"
proof (cases "trigger r (fieldsToValidate (currentStep s)) s")
  case (Pair res s1)
  with trigger_snd_fields(4)[of r "fieldsToValidate (currentStep s)" s]
  have "cart s1 = cart s" by simp
  with Pair show ?thesis
    by (simp add: handleNext_def length_steps handleSubmit_cart)
qed

lemma checkoutEvent_cart:
  "cart (checkoutEvent r props e s) = cart s
   \<or> (\<exists>outcome. e = ClickNext outcome \<and> orderCreated outcome
         \<and> cart (checkoutEvent r props e s) = clearCart (cart s))"
  by (cases e)
     (simp_all add: checkoutEvent_def handleNext_cart handlePrevious_def clickStep_def)

text \<open>
  Claim C8. Each step validates its own section of the form: shipping, billing, payment
  and, at the review step, the acceptance of the terms; the validation answers true
  exactly when the schema reports no error there. \<open>handleNext\<close> raises the step by
  exactly one, and only when the current step is valid and is not the last; before the
  last step it sends nothing. \<open>handlePrevious\<close> lowers the step by exactly one and never
  below 0. A button of the step navigation moves only to a lower step. From the first
  step on, the step stays between 0 and 3, every step below the current one has been
  passed (it was valid when the next button was pressed there), an order is sent only by
  the next button at step 3 with the terms accepted, and whenever an order has been sent
  every one of the four steps has been passed.
\<close>

theorem checkout_steps_validated_in_order:
  "fieldsToValidate 0 = [''shipping''] \<and> fieldsToValidate 1 = [''billing'']
   \<and> fieldsToValidate 2 = [''payment''] \<and> fieldsToValidate 3 = [''termsAccepted'']
   \<and> fst (trigger r (fieldsToValidate k) s) = stepValid r k (formValues s)
   \<and> stepValid r k (formValues s)
        = (\<forall>e \<in> set (r (formValues s)). fst e \<notin> set (stepFields k))
   \<and> currentStep (handleNext r props outcome s)
        = (if stepValid r (currentStep s) (formValues s) \<and> currentStep s < 3
           then currentStep s + 1 else currentStep s)
   \<and> (currentStep s < 3 \<longrightarrow> postedOrders (handleNext r props outcome s) = postedOrders s)
   \<and> currentStep (handlePrevious s)
        = (if 0 < currentStep s then currentStep s - 1 else currentStep s)
   \<and> (0 \<le> currentStep s \<longrightarrow> 0 \<le> currentStep (handlePrevious s))
   \<and> currentStep (checkoutEvent r props (ClickStep index) s)
        = (if length (items (cart s)) \<noteq> 0 \<and> 0 \<le> index \<and> index < 4 \<and> index < currentStep s
           then index else currentStep s)
   \<and> 0 \<le> currentStep (runCheckout r props es (initialCheckout v c))
   \<and> currentStep (runCheckout r props es (initialCheckout v c)) \<le> 3
   \<and> (\<forall>j. 0 \<le> j \<and> j < currentStep (runCheckout r props es (initialCheckout v c))
          \<longrightarrow> stepPassed r props (initialCheckout v c) es j)
   \<and> (postedOrders (runCheckout r props es (initialCheckout v c)) \<noteq> []
        \<longrightarrow> (\<forall>j. 0 \<le> j \<and> j \<le> 3 \<longrightarrow> stepPassed r props (initialCheckout v c) es j))
   \<and> (postedOrders (checkoutEvent r props e (runCheckout r props es (initialCheckout v c)))
          \<noteq> postedOrders (runCheckout r props es (initialCheckout v c))
        \<longrightarrow> isClickNext e
            \<and> length (items (cart (runCheckout r props es (initialCheckout v c)))) \<noteq> 0
            \<and> currentStep (runCheckout r props es (initialCheckout v c)) = 3
            \<and> stepValid r 3 (formValues (runCheckout r props es (initialCheckout v c))))"
proof -
  let ?t = "runCheckout r props es (initialCheckout v c)"
  note inv = checkout_invariant[of r props es v c]
  have fields: "fieldsToValidate 0 = [''shipping'']" "fieldsToValidate 1 = [''billing'']"
    "fieldsToValidate 2 = [''payment'']" "fieldsToValidate 3 = [''termsAccepted'']"
    by (simp_all add: fieldsToValidate_def)
  have valid: "stepValid r k (formValues s)
        = (\<forall>e \<in> set (r (formValues s)). fst e \<notin> set (stepFields k))"
    by (simp add: stepValid_def filter_empty_conv)
  have submit: "isClickNext e \<and> length (items (cart ?t)) \<noteq> 0 \<and> currentStep ?t = 3
                 \<and> stepValid r 3 (formValues ?t)"
    if "postedOrders (checkoutEvent r props e ?t) \<noteq> postedOrders ?t"
  proof -
    from that checkoutEvent_posted_cases[of r props e ?t]
    have *: "length (items (cart ?t)) \<noteq> 0" "isClickNext e"
      "fst (trigger r (fieldsToValidate (currentStep ?t)) ?t)" "\<not> currentStep ?t < 3"
      by blast+
    from *(4) inv have three: "currentStep ?t = 3" by simp
    with *(3) have "stepValid r 3 (formValues ?t)"
      by (simp add: trigger_stepValid)
    with * three show ?thesis by simp
  qed
  have next_quiet: "postedOrders (handleNext r props outcome s) = postedOrders s"
    if "currentStep s < 3"
    using that by (simp add: handleNext_posted)
  have jump: "currentStep (checkoutEvent r props (ClickStep index) s)
        = (if length (items (cart s)) \<noteq> 0 \<and> 0 \<le> index \<and> index < 4 \<and> index < currentStep s
           then index else currentStep s)"
    by (simp add: checkoutEvent_currentStep)
  have step: "currentStep (handleNext r props outcome s)
        = (if stepValid r (currentStep s) (formValues s) \<and> currentStep s < 3
           then currentStep s + 1 else currentStep s)"
    by (simp add: handleNext_currentStep trigger_stepValid)
  from inv submit next_quiet jump fields valid step show ?thesis
    by (simp add: handlePrevious_currentStep trigger_stepValid)
qed

lemma exampleClicks_posted:
  "postedOrders (runCheckout exampleResolver exampleProps exampleClicks
     (initialCheckout [] exampleCart)) \<noteq> []"
  by (simp add: exampleClicks_def runCheckout_def checkoutEvent_posted checkoutEvent_def
      handleNext_def trigger_def fieldsToValidate_def exampleResolver_def initialCheckout_def
      exampleCart_def steps_def handleSubmit_posted)

lemma exampleClicks_step:
  "currentStep (runCheckout exampleResolver exampleProps (take 2 exampleClicks)
     (initialCheckout [] exampleCart)) = 2"
  by (simp add: exampleClicks_def runCheckout_def checkoutEvent_def
      handleNext_def trigger_def fieldsToValidate_def exampleResolver_def initialCheckout_def
      exampleCart_def steps_def)

lemma exampleAt_fields:
  "currentStep (exampleAt k v) = k" "formValues (exampleAt k v) = v"
  by (simp_all add: exampleAt_def)

lemma exampleResolver_valid:
  "stepValid exampleResolver 0 [''billing'', ''payment'', ''termsAccepted'']"
  "\<not> stepValid exampleResolver 0 [''shipping'']"
  "stepValid exampleResolver 1 [''shipping'', ''payment'', ''termsAccepted'']"
  "\<not> stepValid exampleResolver 1 [''billing'']"
  "stepValid exampleResolver 2 [''shipping'', ''billing'', ''termsAccepted'']"
  "\<not> stepValid exampleResolver 2 [''payment'']"
  "stepValid exampleResolver 3 [''shipping'', ''billing'', ''payment'']"
  "\<not> stepValid exampleResolver 3 [''termsAccepted'']"
  by (simp_all add: stepValid_def stepFields_def stepFieldGroups_def exampleResolver_def)

theorem checkout_steps_validated_in_order_witness:
  "currentStep (runCheckout exampleResolver exampleProps (take 2 exampleClicks)
     (initialCheckout [] exampleCart)) = 2
   \<and> stepPassed exampleResolver exampleProps (initialCheckout [] exampleCart)
        (take 2 exampleClicks) 0
   \<and> stepPassed exampleResolver exampleProps (initialCheckout [] exampleCart)
        (take 2 exampleClicks) 1
   \<and> postedOrders (runCheckout exampleResolver exampleProps exampleClicks
        (initialCheckout [] exampleCart)) \<noteq> []
   \<and> stepPassed exampleResolver exampleProps (initialCheckout [] exampleCart) exampleClicks 0
   \<and> stepPassed exampleResolver exampleProps (initialCheckout [] exampleCart) exampleClicks 1
   \<and> stepPassed exampleResolver exampleProps (initialCheckout [] exampleCart) exampleClicks 2
   \<and> stepPassed exampleResolver exampleProps (initialCheckout [] exampleCart) exampleClicks 3
   \<and> currentStep (handleNext exampleResolver exampleProps NetworkError
          (exampleAt 0 [''shipping''])) = 0
   \<and> currentStep (handleNext exampleResolver exampleProps NetworkError
          (exampleAt 0 [''billing'', ''payment'', ''termsAccepted''])) = 1
   \<and> currentStep (handleNext exampleResolver exampleProps NetworkError
          (exampleAt 1 [''billing''])) = 1
   \<and> currentStep (handleNext exampleResolver exampleProps NetworkError
          (exampleAt 1 [''shipping'', ''payment'', ''termsAccepted''])) = 2
   \<and> currentStep (handleNext exampleResolver exampleProps NetworkError
          (exampleAt 2 [''payment''])) = 2
   \<and> currentStep (handleNext exampleResolver exampleProps NetworkError
          (exampleAt 2 [''shipping'', ''billing'', ''termsAccepted''])) = 3
   \<and> currentStep (handleNext exampleResolver exampleProps NetworkError
          (exampleAt 3 [''termsAccepted''])) = 3
   \<and> \<not> fst (trigger exampleResolver (fieldsToValidate 3) (exampleAt 3 [''termsAccepted'']))
   \<and> fst (trigger exampleResolver (fieldsToValidate 3)
          (exampleAt 3 [''shipping'', ''billing'', ''payment'']))
   \<and> currentStep (handlePrevious exampleReview) = 2
   \<and> currentStep (checkoutEvent exampleResolver exampleProps (ClickStep 1) exampleReview) = 1
   \<and> postedOrders (checkoutEvent exampleResolver exampleProps (ClickNext NetworkError)
          (runCheckout exampleResolver exampleProps (take 3 exampleClicks)
             (initialCheckout [] exampleCart)))
        \<noteq> postedOrders (runCheckout exampleResolver exampleProps (take 3 exampleClicks)
             (initialCheckout [] exampleCart))
   \<and> currentStep (runCheckout exampleResolver exampleProps (take 3 exampleClicks)
        (initialCheckout [] exampleCart)) = 3"
proof -
  let ?s0 = "initialCheckout [] exampleCart :: string list CheckoutState"
  have two: "currentStep (runCheckout exampleResolver exampleProps (take 2 exampleClicks) ?s0) = 2"
    by (rule exampleClicks_step)
  have sent: "postedOrders (runCheckout exampleResolver exampleProps exampleClicks ?s0) \<noteq> []"
    by (rule exampleClicks_posted)
  have three: "runCheckout exampleResolver exampleProps (take 3 exampleClicks) ?s0
                 = exampleReview\<lparr>effects := [ScrollTo 0 0, ScrollTo 0 0, ScrollTo 0 0]\<rparr>"
    by (simp add: exampleClicks_def runCheckout_def checkoutEvent_def exampleReview_def
      handleNext_def trigger_def fieldsToValidate_def exampleResolver_def initialCheckout_def
      exampleCart_def steps_def)
  have grew: "postedOrders (checkoutEvent exampleResolver exampleProps (ClickNext NetworkError)
          (runCheckout exampleResolver exampleProps (take 3 exampleClicks) ?s0))
        \<noteq> postedOrders (runCheckout exampleResolver exampleProps (take 3 exampleClicks) ?s0)"
    unfolding three
    by (simp add: checkoutEvent_posted exampleReview_def exampleCart_def trigger_def
        fieldsToValidate_def exampleResolver_def)
  have prev: "currentStep (handlePrevious exampleReview) = 2"
    by (simp add: handlePrevious_def exampleReview_def)
  have jump: "currentStep (checkoutEvent exampleResolver exampleProps (ClickStep 1) exampleReview) = 1"
    by (simp add: checkoutEvent_def clickStep_def exampleReview_def exampleCart_def steps_def)
  note v = exampleResolver_valid
  have step_eq: "currentStep (handleNext exampleResolver exampleProps NetworkError (exampleAt k vals))
        = (if stepValid exampleResolver k vals \<and> k < 3 then k + 1 else k)" for k vals
  proof -
    from checkout_steps_validated_in_order
      [of exampleResolver k "exampleAt k vals" exampleProps NetworkError 0 "[]" "[]"
          exampleCart ClickPrevious]
    have "currentStep (handleNext exampleResolver exampleProps NetworkError (exampleAt k vals))
        = (if stepValid exampleResolver (currentStep (exampleAt k vals))
                (formValues (exampleAt k vals)) \<and> currentStep (exampleAt k vals) < 3
           then currentStep (exampleAt k vals) + 1 else currentStep (exampleAt k vals))"
      by blast
    then show ?thesis
      by (simp only: exampleAt_fields)
  qed
  have trigger_eq: "fst (trigger exampleResolver (fieldsToValidate k) (exampleAt k vals))
        = stepValid exampleResolver k vals" for k vals
  proof -
    from checkout_steps_validated_in_order
      [of exampleResolver k "exampleAt k vals" exampleProps NetworkError 0 "[]" "[]"
          exampleCart ClickPrevious]
    have "fst (trigger exampleResolver (fieldsToValidate k) (exampleAt k vals))
        = stepValid exampleResolver k (formValues (exampleAt k vals))"
      by blast
    then show ?thesis
      by (simp only: exampleAt_fields)
  qed
  have stay0: "currentStep (handleNext exampleResolver exampleProps NetworkError
          (exampleAt 0 [''shipping''])) = 0"
    by (simp add: step_eq v)
  have go0: "currentStep (handleNext exampleResolver exampleProps NetworkError
          (exampleAt 0 [''billing'', ''payment'', ''termsAccepted''])) = 1"
    by (simp add: step_eq v)
  have stay1: "currentStep (handleNext exampleResolver exampleProps NetworkError
          (exampleAt 1 [''billing''])) = 1"
    by (simp add: step_eq v)
  have go1: "currentStep (handleNext exampleResolver exampleProps NetworkError
          (exampleAt 1 [''shipping'', ''payment'', ''termsAccepted''])) = 2"
    by (simp add: step_eq v)
  have stay2: "currentStep (handleNext exampleResolver exampleProps NetworkError
          (exampleAt 2 [''payment''])) = 2"
    by (simp add: step_eq v)
  have go2: "currentStep (handleNext exampleResolver exampleProps NetworkError
          (exampleAt 2 [''shipping'', ''billing'', ''termsAccepted''])) = 3"
    by (simp add: step_eq v)
  have stay3: "currentStep (handleNext exampleResolver exampleProps NetworkError
          (exampleAt 3 [''termsAccepted''])) = 3"
    by (simp add: step_eq v)
  have refused: "\<not> fst (trigger exampleResolver (fieldsToValidate 3)
          (exampleAt 3 [''termsAccepted'']))"
    by (simp only: trigger_eq v not_False_eq_True)
  have terms: "fst (trigger exampleResolver (fieldsToValidate 3)
          (exampleAt 3 [''shipping'', ''billing'', ''payment'']))"
    by (simp only: trigger_eq v)
  from checkout_steps_validated_in_order
    [of exampleResolver 0 exampleReview exampleProps NetworkError 1 "take 2 exampleClicks"
        "[]" exampleCart "ClickNext NetworkError"]
    two
  have p2: "stepPassed exampleResolver exampleProps ?s0 (take 2 exampleClicks) 0"
    "stepPassed exampleResolver exampleProps ?s0 (take 2 exampleClicks) 1"
    by simp_all
  from checkout_steps_validated_in_order
    [of exampleResolver 0 exampleReview exampleProps NetworkError 1 exampleClicks
        "[]" exampleCart "ClickNext NetworkError"]
    sent
  have p4: "stepPassed exampleResolver exampleProps ?s0 exampleClicks 0"
    "stepPassed exampleResolver exampleProps ?s0 exampleClicks 1"
    "stepPassed exampleResolver exampleProps ?s0 exampleClicks 2"
    "stepPassed exampleResolver exampleProps ?s0 exampleClicks 3"
    by simp_all
  from checkout_steps_validated_in_order
    [of exampleResolver 0 exampleReview exampleProps NetworkError 1 "take 3 exampleClicks"
        "[]" exampleCart "ClickNext NetworkError"]
    grew
  have at3: "currentStep (runCheckout exampleResolver exampleProps (take 3 exampleClicks) ?s0) = 3"
    by blast
  from two sent stay0 go0 stay1 go1 stay2 go2 stay3 refused terms prev jump grew p2 p4 at3
  show ?thesis
    by blast
qed

lemma requestFailed_not_created: "requestFailed outcome \<Longrightarrow> \<not> orderCreated outcome"
  by (cases outcome rule: orderCreated.cases) simp_all

text \<open>
  Claim C6, as the code has it. When the request fails (the network fails, the response
  is not ok, or its body cannot be read), \<open>handleSubmit\<close> only writes to the console:
  the state is the one before with the request and the console entry added to the
  effects, so neither \<open>onSuccess\<close> nor the redirect occurs, the messages the form shows
  are unchanged, and what the component renders is what it rendered before the
  submission.
\<close>

theorem checkout_failure_only_logged:
  "(requestFailed outcome \<longrightarrow> \<not> orderCreated outcome)
   \<and> (\<not> orderCreated outcome \<longrightarrow>
        handleSubmit props outcome s
          = s\<lparr>isSubmitting := False,
              effects := effects s @ [PostOrder (orderBody (s\<lparr>isSubmitting := True\<rparr>)),
                                      ConsoleError ''Error submitting order:'']\<rparr>
        \<and> formMessages (handleSubmit props outcome s) = formMessages s
        \<and> (\<not> isSubmitting s \<longrightarrow> rendered (handleSubmit props outcome s) = rendered s))"
proof (intro conjI impI)
  assume "requestFailed outcome"
  then show "\<not> orderCreated outcome" by (rule requestFailed_not_created)
next
  assume "\<not> orderCreated outcome"
  then show "handleSubmit props outcome s
          = s\<lparr>isSubmitting := False,
              effects := effects s @ [PostOrder (orderBody (s\<lparr>isSubmitting := True\<rparr>)),
                                      ConsoleError ''Error submitting order:'']\<rparr>"
    by (rule handleSubmit_failed)
next
  show "formMessages (handleSubmit props outcome s) = formMessages s"
    by (simp add: formMessages_def handleSubmit_formErrors)
next
  assume "\<not> orderCreated outcome" and "\<not> isSubmitting s"
  then show "rendered (handleSubmit props outcome s) = rendered s"
    by (simp add: rendered_def handleSubmit_failed)
qed

theorem checkout_failure_only_logged_witness:
  "requestFailed (HttpResponse False JsonThrows)
   \<and> \<not> orderCreated (HttpResponse False JsonThrows)
   \<and> \<not> isSubmitting exampleReview
   \<and> effects (handleSubmit exampleProps (HttpResponse False JsonThrows) exampleReview)
        = [PostOrder (orderBody (exampleReview\<lparr>isSubmitting := True\<rparr>)),
           ConsoleError ''Error submitting order:'']
   \<and> formMessages (handleSubmit exampleProps (HttpResponse False JsonThrows) exampleReview) = []
   \<and> rendered (handleSubmit exampleProps (HttpResponse False JsonThrows) exampleReview)
        = rendered exampleReview"
  using checkout_failure_only_logged [of "HttpResponse False JsonThrows" exampleProps exampleReview]
  by (simp add: exampleReview_def formMessages_def rendered_def)

text \<open>
  The claim C6 as stated, that a failed request surfaces an error message in the form,
  fails: after a response that is not ok the form shows no message and renders exactly
  what it rendered before, whether \<open>handleSubmit\<close> is run directly or through the
  button of the review step.
\<close>

theorem checkout_failure_surfaced_counterexample:
  "requestFailed (HttpResponse False JsonThrows)
   \<and> formMessages (handleSubmit exampleProps (HttpResponse False JsonThrows) exampleReview) = []
   \<and> rendered (handleSubmit exampleProps (HttpResponse False JsonThrows) exampleReview)
        = rendered exampleReview
   \<and> rendered (handleNext exampleResolver exampleProps (HttpResponse False JsonThrows) exampleReview)
        = rendered exampleReview
   \<and> formMessages (handleNext exampleResolver exampleProps (HttpResponse False JsonThrows)
        exampleReview) = []"
  by (simp add: exampleReview_def formMessages_def rendered_def handleNext_def trigger_def
      fieldsToValidate_def exampleResolver_def steps_def handleSubmit_def catchAndFinally_def)

text \<open>
  Claim C10. The submission clears the cart exactly when the response is ok and its body
  is read; after a failed request, or an unreadable body, the cart is the one before.
  The only event of the form that changes the cart is the next button with such a
  response, and it clears it.
\<close>

theorem cart_cleared_only_after_order_created:
  "cart (handleSubmit props outcome s)
     = (if orderCreated outcome then clearCart (cart s) else cart s)
   \<and> (requestFailed outcome \<longrightarrow> cart (handleSubmit props outcome s) = cart s)
   \<and> (outcome = HttpResponse True JsonThrows \<longrightarrow> cart (handleSubmit props outcome s) = cart s)
   \<and> (cart (checkoutEvent r props e s) \<noteq> cart s \<longrightarrow>
        (\<exists>created. e = ClickNext created \<and> orderCreated created
           \<and> cart (checkoutEvent r props e s) = clearCart (cart s)))"
  using checkoutEvent_cart[of r props e s]
  by (auto simp: handleSubmit_cart dest: requestFailed_not_created)

theorem cart_cleared_only_after_order_created_witness:
  "requestFailed (HttpResponse False JsonThrows)
   \<and> cart (handleSubmit exampleProps (HttpResponse False JsonThrows) exampleReview) = exampleCart
   \<and> requestFailed NetworkError
   \<and> cart (handleSubmit exampleProps NetworkError exampleReview) = exampleCart
   \<and> cart (handleSubmit exampleProps (HttpResponse True JsonThrows) exampleReview) = exampleCart
   \<and> orderCreated (HttpResponse True (JsonData (Some ''o-1'')))
   \<and> items (cart (handleSubmit exampleProps (HttpResponse True (JsonData (Some ''o-1'')))
        exampleReview)) = []
   \<and> cart (checkoutEvent exampleResolver exampleProps
        (ClickNext (HttpResponse True (JsonData (Some ''o-1'')))) exampleReview) \<noteq> cart exampleReview"
  using cart_cleared_only_after_order_created
    [of exampleProps "HttpResponse False JsonThrows" exampleReview exampleResolver
        "ClickNext (HttpResponse True (JsonData (Some ''o-1'')))"]
    cart_cleared_only_after_order_created
    [of exampleProps NetworkError exampleReview exampleResolver ClickPrevious]
    cart_cleared_only_after_order_created
    [of exampleProps "HttpResponse True JsonThrows" exampleReview exampleResolver ClickPrevious]
    cart_cleared_only_after_order_created
    [of exampleProps "HttpResponse True (JsonData (Some ''o-1''))" exampleReview exampleResolver
        ClickPrevious]
  by (simp add: exampleReview_def exampleCart_def clearCart_def checkoutEvent_def handleNext_cart
      trigger_def fieldsToValidate_def exampleResolver_def)

section \<open>Properties of the product listing\<close>

lemma issueWhen_Nil:
  "issueWhen field bad path code = [] \<longleftrightarrow> (case field of None \<Rightarrow> True | Some v \<Rightarrow> \<not> bad v)"
  by (simp add: issueWhen_def split: option.split)

lemma productFilterSchema_valid:
  "productFilterSchema raw = Inr input \<Longrightarrow> specValidFilter raw"
  by (auto simp: productFilterSchema_def Let_def issueWhen_Nil specValidFilter_def
      split: if_splits option.splits)

lemma productFilterSchema_accepts:
  "specValidFilter raw \<Longrightarrow> \<exists>input. productFilterSchema raw = Inr input"
  by (auto simp: productFilterSchema_def Let_def issueWhen_Nil specValidFilter_def
      split: if_splits option.splits)

lemma productFilterSchema_page:
  assumes "productFilterSchema raw = Inr input"
  shows "page input = orDefault (raw_page raw) 1" "perPage input = orDefault (raw_perPage raw) 20"
    "1 \<le> page input" "1 \<le> perPage input" "perPage input \<le> 100"
    "sortBy input = orDefault (raw_sortBy raw) SortByCreatedAt"
    "sortOrder input = orDefault (raw_sortOrder raw) Desc"
  using assms
  by (auto simp: productFilterSchema_def Let_def issueWhen_Nil orDefault_def
      split: if_splits option.splits)

lemma totalPages_bracket:
  fixes n :: nat and b :: int
  assumes "0 < b"
  shows "(\<lceil>(of_nat n :: rat) / of_int b\<rceil> - 1) * b < int n"
    and "int n \<le> \<lceil>(of_nat n :: rat) / of_int b\<rceil> * b"
proof -
  let ?x = "(of_nat n :: rat) / of_int b"
  from assms have b: "(0::rat) < of_int b" by simp
  have "of_int \<lceil>?x\<rceil> - 1 < ?x"
    using ceiling_correct[of ?x] by blast
  then have "(of_int \<lceil>?x\<rceil> - 1) * of_int b < (of_nat n :: rat)"
    by (simp only: pos_less_divide_eq[OF b])
  then have "(of_int ((\<lceil>?x\<rceil> - 1) * b) :: rat) < of_int (int n)"
    by simp
  then show "(\<lceil>?x\<rceil> - 1) * b < int n"
    by (simp only: of_int_less_iff)
  have "?x \<le> of_int \<lceil>?x\<rceil>"
    by (rule le_of_int_ceiling)
  then have "(of_nat n :: rat) \<le> of_int \<lceil>?x\<rceil> * of_int b"
    by (simp only: pos_divide_le_eq[OF b])
  then have "(of_int (int n) :: rat) \<le> of_int (\<lceil>?x\<rceil> * b)"
    by simp
  then show "int n \<le> \<lceil>?x\<rceil> * b"
    by (simp only: of_int_le_iff)
qed

lemma totalPages_div:
  fixes n :: nat and b :: int
  assumes "0 < b"
  shows "\<lceil>(of_nat n :: rat) / of_int b\<rceil> = (int n + b - 1) div b"
proof -
  let ?c = "\<lceil>(of_nat n :: rat) / of_int b\<rceil>"
  from totalPages_bracket[OF assms, of n]
  have lo: "(?c - 1) * b < int n" and hi: "int n \<le> ?c * b" by simp_all
  have "(int n + b - 1) div b = ?c"
  proof (rule int_div_pos_eq[where r="int n + b - 1 - b * ?c"])
    show "int n + b - 1 = b * ?c + (int n + b - 1 - b * ?c)" by simp
    from lo show "0 \<le> int n + b - 1 - b * ?c" by (simp add: algebra_simps)
    from hi show "int n + b - 1 - b * ?c < b" by (simp add: algebra_simps)
  qed
  then show ?thesis by simp
qed

lemma getProductsQuery_rows:
  "map out_product (products (getProductsQuery db input))
     = take (nat (perPage input)) (drop (nat ((page input - 1) * perPage input))
         (db_ordered db (sortBy input) (sortOrder input)
            (db_matching db (buildProductQuery input))))"
  by (simp add: getProductsQuery_def Let_def findMany_def withRating_def comp_def)

lemma getProductsQuery_pagination:
  "pagination (getProductsQuery db input)
     = \<lparr>pg_page = page input, pg_perPage = perPage input,
        pg_totalCount = length (db_matching db (buildProductQuery input)),
        pg_totalPages = \<lceil>(of_nat (length (db_matching db (buildProductQuery input))) :: rat)
                           / of_int (perPage input)\<rceil>,
        pg_hasNextPage = (page input < \<lceil>(of_nat (length (db_matching db (buildProductQuery input))) :: rat)
                           / of_int (perPage input)\<rceil>),
        pg_hasPreviousPage = (1 < page input)\<rparr>"
  by (simp add: getProductsQuery_def Let_def countProducts_def)

text \<open>
  Claim C3. The schema accepts exactly the valid inputs and fills in page 1 and 20 per
  page. On an accepted input with page \<open>p\<close> and \<open>n\<close> per page, \<open>n\<close> is between 1
  and 100, and \<open>getProducts\<close> returns the rows of the ordered matching products after
  the first \<open>(p - 1) * n\<close>, at most \<open>n\<close> of them. The total count is the number of
  matching products, the number of pages is the ceiling of the count divided by
  \<open>n\<close> (the least number of pages of \<open>n\<close> rows that hold them all), there is a next
  page exactly when \<open>p\<close> is less than the number of pages, and a previous one exactly
  when \<open>p > 1\<close>.
\<close>

theorem getProducts_paginates:
  "((\<exists>input. productFilterSchema raw = Inr input) \<longleftrightarrow> specValidFilter raw)
   \<and> (productFilterSchema raw = Inr input \<longrightarrow>
        getProducts db raw = Inr (getProductsQuery db input)
        \<and> page input = orDefault (raw_page raw) 1
        \<and> perPage input = orDefault (raw_perPage raw) 20
        \<and> 1 \<le> page input \<and> 1 \<le> perPage input \<and> perPage input \<le> 100
        \<and> 0 \<le> (page input - 1) * perPage input
        \<and> map out_product (products (getProductsQuery db input))
             = take (nat (perPage input)) (drop (nat ((page input - 1) * perPage input))
                 (db_ordered db (sortBy input) (sortOrder input)
                    (db_matching db (buildProductQuery input))))
        \<and> length (products (getProductsQuery db input)) \<le> nat (perPage input)
        \<and> pg_page (pagination (getProductsQuery db input)) = page input
        \<and> pg_perPage (pagination (getProductsQuery db input)) = perPage input
        \<and> pg_totalCount (pagination (getProductsQuery db input))
             = length (db_matching db (buildProductQuery input))
        \<and> pg_totalPages (pagination (getProductsQuery db input))
             = \<lceil>(of_nat (pg_totalCount (pagination (getProductsQuery db input))) :: rat)
                  / of_int (perPage input)\<rceil>
        \<and> (pg_totalPages (pagination (getProductsQuery db input)) - 1) * perPage input
             < int (pg_totalCount (pagination (getProductsQuery db input)))
        \<and> int (pg_totalCount (pagination (getProductsQuery db input)))
             \<le> pg_totalPages (pagination (getProductsQuery db input)) * perPage input
        \<and> pg_totalPages (pagination (getProductsQuery db input))
             = (int (pg_totalCount (pagination (getProductsQuery db input))) + perPage input - 1)
                 div perPage input
        \<and> pg_hasNextPage (pagination (getProductsQuery db input))
             = (page input < pg_totalPages (pagination (getProductsQuery db input)))
        \<and> pg_hasPreviousPage (pagination (getProductsQuery db input)) = (1 < page input))"
proof (intro conjI impI)
  show "(\<exists>input. productFilterSchema raw = Inr input) \<longleftrightarrow> specValidFilter raw"
    using productFilterSchema_valid productFilterSchema_accepts by blast
next
  assume ok: "productFilterSchema raw = Inr input"
  note p = productFilterSchema_page[OF ok]
  from p(4) have pos: "0 < perPage input" by simp
  show "getProducts db raw = Inr (getProductsQuery db input)"
    using ok by (simp add: getProducts_def)
  show "page input = orDefault (raw_page raw) 1" by (rule p)
  show "perPage input = orDefault (raw_perPage raw) 20" by (rule p)
  show "1 \<le> page input" by (rule p)
  show "1 \<le> perPage input" by (rule p)
  show "perPage input \<le> 100" by (rule p)
  show "0 \<le> (page input - 1) * perPage input"
    using p(3) p(4) by simp
  show "map out_product (products (getProductsQuery db input))
             = take (nat (perPage input)) (drop (nat ((page input - 1) * perPage input))
                 (db_ordered db (sortBy input) (sortOrder input)
                    (db_matching db (buildProductQuery input))))"
    by (rule getProductsQuery_rows)
  have "length (map out_product (products (getProductsQuery db input))) \<le> nat (perPage input)"
    unfolding getProductsQuery_rows by simp
  then show "length (products (getProductsQuery db input)) \<le> nat (perPage input)"
    by simp
  show "pg_page (pagination (getProductsQuery db input)) = page input"
    by (simp add: getProductsQuery_pagination)
  show "pg_perPage (pagination (getProductsQuery db input)) = perPage input"
    by (simp add: getProductsQuery_pagination)
  show "pg_totalCount (pagination (getProductsQuery db input))
             = length (db_matching db (buildProductQuery input))"
    by (simp add: getProductsQuery_pagination)
  show "pg_totalPages (pagination (getProductsQuery db input))
             = \<lceil>(of_nat (pg_totalCount (pagination (getProductsQuery db input))) :: rat)
                  / of_int (perPage input)\<rceil>"
    by (simp add: getProductsQuery_pagination)
  show "(pg_totalPages (pagination (getProductsQuery db input)) - 1) * perPage input
             < int (pg_totalCount (pagination (getProductsQuery db input)))"
    using totalPages_bracket(1)[OF pos] by (simp add: getProductsQuery_pagination)
  show "int (pg_totalCount (pagination (getProductsQuery db input)))
             \<le> pg_totalPages (pagination (getProductsQuery db input)) * perPage input"
    using totalPages_bracket(2)[OF pos] by (simp add: getProductsQuery_pagination)
  show "pg_totalPages (pagination (getProductsQuery db input))
             = (int (pg_totalCount (pagination (getProductsQuery db input))) + perPage input - 1)
                 div perPage input"
    using totalPages_div[OF pos] by (simp add: getProductsQuery_pagination)
  show "pg_hasNextPage (pagination (getProductsQuery db input))
             = (page input < pg_totalPages (pagination (getProductsQuery db input)))"
    by (simp add: getProductsQuery_pagination)
  show "pg_hasPreviousPage (pagination (getProductsQuery db input)) = (1 < page input)"
    by (simp add: getProductsQuery_pagination)
qed

lemma examplePage_parsed: "productFilterSchema examplePageRaw = Inr examplePageFilter"
  by (simp add: productFilterSchema_def examplePageRaw_def emptyFilterRaw_def issueWhen_def
      orDefault_def examplePageFilter_def)

theorem getProducts_paginates_witness:
  "specValidFilter examplePageRaw
   \<and> productFilterSchema examplePageRaw = Inr examplePageFilter
   \<and> map (\<lambda>p. p_stock (out_product p))
        (products (getProductsQuery exampleDatabase examplePageFilter)) = [3, 4]
   \<and> pg_totalCount (pagination (getProductsQuery exampleDatabase examplePageFilter)) = 5
   \<and> pg_totalPages (pagination (getProductsQuery exampleDatabase examplePageFilter)) = 3
   \<and> pg_hasNextPage (pagination (getProductsQuery exampleDatabase examplePageFilter))
   \<and> pg_hasPreviousPage (pagination (getProductsQuery exampleDatabase examplePageFilter))"
proof -
  let ?q = "getProductsQuery exampleDatabase examplePageFilter"
  note t = getProducts_paginates[of examplePageRaw examplePageFilter exampleDatabase]
  note ok = examplePage_parsed
  from t ok have valid: "specValidFilter examplePageRaw" by blast
  from t ok have "map out_product (products ?q)
      = take (nat (perPage examplePageFilter))
          (drop (nat ((page examplePageFilter - 1) * perPage examplePageFilter))
             (db_ordered exampleDatabase (sortBy examplePageFilter) (sortOrder examplePageFilter)
                (db_matching exampleDatabase (buildProductQuery examplePageFilter))))"
    by blast
  then have "map out_product (products ?q) = [exampleProduct 3, exampleProduct 4]"
    by (simp add: examplePageFilter_def exampleDatabase_def)
  then have "map p_stock (map out_product (products ?q)) = [3, 4]"
    by (simp add: exampleProduct_def)
  then have rows: "map (\<lambda>p. p_stock (out_product p)) (products ?q) = [3, 4]"
    by (simp add: comp_def)
  from t ok have "pg_totalCount (pagination ?q)
      = length (db_matching exampleDatabase (buildProductQuery examplePageFilter))"
    by blast
  then have count: "pg_totalCount (pagination ?q) = 5"
    by (simp add: exampleDatabase_def)
  from t ok have "(pg_totalPages (pagination ?q) - 1) * perPage examplePageFilter
        < int (pg_totalCount (pagination ?q))"
    and "int (pg_totalCount (pagination ?q))
        \<le> pg_totalPages (pagination ?q) * perPage examplePageFilter"
    by blast+
  with count have pages: "pg_totalPages (pagination ?q) = 3"
    by (simp add: examplePageFilter_def)
  from t ok have "pg_hasNextPage (pagination ?q) = (page examplePageFilter < pg_totalPages (pagination ?q))"
    and "pg_hasPreviousPage (pagination ?q) = (1 < page examplePageFilter)"
    by blast+
  with pages have flags: "pg_hasNextPage (pagination ?q)" "pg_hasPreviousPage (pagination ?q)"
    by (simp_all add: examplePageFilter_def)
  from valid ok rows count pages flags show ?thesis
    by blast
qed

text \<open>
  Claim C4, as the code has it. The where object always has \<open>isActive = true\<close>. It has
  the case-insensitive name, description and sku clause exactly when a search string is
  supplied and is not empty, the category (brand) equality exactly when the category
  (brand) id is supplied and is not 0, the price range with the supplied bounds exactly
  when a bound is supplied, the model clause (not null for true, null for false) exactly
  when \<open>has3DModel\<close> is supplied, and the stock clause (greater than 0 for true, equal
  to 0 for false) exactly when \<open>inStock\<close> is supplied.
\<close>

theorem buildProductQuery_clauses:
  "where_isActive (buildProductQuery input) = True
   \<and> where_OR (buildProductQuery input)
        = (case search input of
             None \<Rightarrow> None
           | Some str \<Rightarrow>
               if str = [] then None
               else Some [ContainsInsensitive ColumnName str,
                          ContainsInsensitive ColumnDescription str,
                          ContainsInsensitive ColumnSku str])
   \<and> where_categoryId (buildProductQuery input)
        = (case categoryId input of None \<Rightarrow> None | Some c \<Rightarrow> if c = 0 then None else Some c)
   \<and> where_brandId (buildProductQuery input)
        = (case brandId input of None \<Rightarrow> None | Some b \<Rightarrow> if b = 0 then None else Some b)
   \<and> where_price (buildProductQuery input)
        = (if minPrice input = None \<and> maxPrice input = None then None
           else Some \<lparr>gte = minPrice input, lte = maxPrice input\<rparr>)
   \<and> where_model3dId (buildProductQuery input)
        = (case has3DModel input of
             None \<Rightarrow> None | Some b \<Rightarrow> Some (if b then NotNull else IsNull))
   \<and> where_stock (buildProductQuery input)
        = (case inStock input of
             None \<Rightarrow> None | Some b \<Rightarrow> Some (if b then Gt 0 else Equals 0))"
  by (simp add: buildProductQuery_def Let_def split: option.split)

text \<open>
  The claim C4 as stated, that each clause is there exactly when its filter is supplied,
  fails for the falsy values: the schema accepts an empty search string and the ids 0,
  and the where object built from them has no search, category or brand clause.
\<close>

theorem buildProductQuery_supplied_counterexample:
  "productFilterSchema exampleZeroRaw = Inr exampleZeroFilter
   \<and> search exampleZeroFilter = Some []
   \<and> where_OR (buildProductQuery exampleZeroFilter) = None
   \<and> categoryId exampleZeroFilter = Some 0
   \<and> where_categoryId (buildProductQuery exampleZeroFilter) = None
   \<and> brandId exampleZeroFilter = Some 0
   \<and> where_brandId (buildProductQuery exampleZeroFilter) = None"
  by (simp add: productFilterSchema_def exampleZeroRaw_def emptyFilterRaw_def issueWhen_def
      orDefault_def exampleZeroFilter_def buildProductQuery_def)

theorem buildProductQuery_clauses_witness:
  "buildProductQuery exampleFullFilter
     = \<lparr>where_isActive = True,
        where_OR = Some [ContainsInsensitive ColumnName ''sofa'',
                         ContainsInsensitive ColumnDescription ''sofa'',
                         ContainsInsensitive ColumnSku ''sofa''],
        where_categoryId = Some 2, where_brandId = Some 3,
        where_price = Some \<lparr>gte = Some 0, lte = Some 500\<rparr>,
        where_model3dId = Some NotNull, where_stock = Some (Equals 0)\<rparr>
   \<and> buildProductQuery examplePageFilter
     = \<lparr>where_isActive = True, where_OR = None, where_categoryId = None, where_brandId = None,
        where_price = None, where_model3dId = None, where_stock = None\<rparr>"
proof -
  have eq: "w = \<lparr>where_isActive = where_isActive w, where_OR = where_OR w,
                 where_categoryId = where_categoryId w, where_brandId = where_brandId w,
                 where_price = where_price w, where_model3dId = where_model3dId w,
                 where_stock = where_stock w\<rparr>" for w :: ProductWhere
    by simp
  show ?thesis
    using buildProductQuery_clauses [of exampleFullFilter]
      buildProductQuery_clauses [of examplePageFilter]
    by (subst eq[of "buildProductQuery exampleFullFilter"],
        subst eq[of "buildProductQuery examplePageFilter"])
       (simp add: exampleFullFilter_def examplePageFilter_def)
qed

section \<open>Properties of the login form\<close>

lemma LoginSchema_cases:
  "LoginSchema isEmail input
     = (if isEmail (email input) \<and> 8 \<le> length (password input) then Inr input
        else Inl (ZodError
               ((if isEmail (email input) then [] else [(''email'', ''Invalid email format'')])
                @ (if length (password input) < 8
                   then [(''password'', ''Password must be at least 8 characters'')] else []))))"
  by (simp add: LoginSchema_def Let_def)

lemma onSubmit_posted:
  "postedLogins (onSubmit props outcome data s) = postedLogins s @ [PostLogin data]"
  by (simp add: onSubmit_def loginCatch_def postedLogins_def Let_def
      split: login_outcome.split login_json.split option.split callback.split)

lemma postedLogins_errors: "postedLogins (s\<lparr>login_errors := e\<rparr>) = postedLogins s"
  by (simp add: postedLogins_def)

text \<open>
  Claim C5. The login schema refuses an input exactly when its email is not a valid
  email address or its password has fewer than 8 characters, and returns the input
  otherwise. Submitting the form sends the login request exactly when the schema accepts
  the form's values, and sends these values; on refused values nothing is done but to
  show the schema's issues.
\<close>

theorem login_rejects_invalid_input:
  "isl (LoginSchema isEmail input)
     = (\<not> isEmail (email input) \<or> length (password input) < 8)
   \<and> (isEmail (email input) \<and> 8 \<le> length (password input)
        \<longrightarrow> LoginSchema isEmail input = Inr input)
   \<and> postedLogins (submitLoginForm isEmail props outcome s)
        = postedLogins s @
            (if isEmail (email (login_values s)) \<and> 8 \<le> length (password (login_values s))
             then [PostLogin (login_values s)] else [])
   \<and> (isl (LoginSchema isEmail (login_values s)) \<longrightarrow>
        login_effects (submitLoginForm isEmail props outcome s) = login_effects s
        \<and> login_errors (submitLoginForm isEmail props outcome s) \<noteq> [])"
proof (intro conjI impI)
  show "isl (LoginSchema isEmail input)
     = (\<not> isEmail (email input) \<or> length (password input) < 8)"
    by (auto simp: LoginSchema_cases)
next
  assume "isEmail (email input) \<and> 8 \<le> length (password input)"
  then show "LoginSchema isEmail input = Inr input"
    by (simp add: LoginSchema_cases)
next
  show "postedLogins (submitLoginForm isEmail props outcome s)
        = postedLogins s @
            (if isEmail (email (login_values s)) \<and> 8 \<le> length (password (login_values s))
             then [PostLogin (login_values s)] else [])"
    by (simp add: submitLoginForm_def LoginSchema_cases onSubmit_posted postedLogins_errors)
next
  assume "isl (LoginSchema isEmail (login_values s))"
  then show "login_effects (submitLoginForm isEmail props outcome s) = login_effects s"
    by (auto simp: submitLoginForm_def LoginSchema_cases split: if_splits)
next
  assume "isl (LoginSchema isEmail (login_values s))"
  then show "login_errors (submitLoginForm isEmail props outcome s) \<noteq> []"
    by (auto simp: submitLoginForm_def LoginSchema_cases split: if_splits)
qed

lemma exampleIsEmail_values:
  "exampleIsEmail ''a@b.co''" "\<not> exampleIsEmail ''ab.co''"
  by (simp_all add: exampleIsEmail_def)

theorem login_rejects_invalid_input_witness:
  "length (password exampleShortLogin) < 8
   \<and> isl (LoginSchema exampleIsEmail exampleShortLogin)
   \<and> \<not> exampleIsEmail (email exampleBadEmailLogin)
   \<and> isl (LoginSchema exampleIsEmail exampleBadEmailLogin)
   \<and> exampleIsEmail (email exampleGoodLogin)
   \<and> 8 \<le> length (password exampleGoodLogin)
   \<and> LoginSchema exampleIsEmail exampleGoodLogin = Inr exampleGoodLogin
   \<and> login_effects (submitLoginForm exampleIsEmail exampleLoginProps (LoginFetchThrows OtherValue)
        ((initialLoginForm None)\<lparr>login_values := exampleShortLogin\<rparr>)) = []
   \<and> login_errors (submitLoginForm exampleIsEmail exampleLoginProps (LoginFetchThrows OtherValue)
        ((initialLoginForm None)\<lparr>login_values := exampleShortLogin\<rparr>)) \<noteq> []
   \<and> postedLogins (submitLoginForm exampleIsEmail exampleLoginProps (LoginFetchThrows OtherValue)
        ((initialLoginForm None)\<lparr>login_values := exampleGoodLogin\<rparr>))
        = [PostLogin exampleGoodLogin]"
  using login_rejects_invalid_input
      [of exampleIsEmail exampleShortLogin exampleLoginProps "LoginFetchThrows OtherValue"
          "(initialLoginForm None)\<lparr>login_values := exampleShortLogin\<rparr>"]
    login_rejects_invalid_input
      [of exampleIsEmail exampleBadEmailLogin exampleLoginProps "LoginFetchThrows OtherValue"
          "(initialLoginForm None)\<lparr>login_values := exampleGoodLogin\<rparr>"]
    login_rejects_invalid_input
      [of exampleIsEmail exampleGoodLogin exampleLoginProps "LoginFetchThrows OtherValue"
          "(initialLoginForm None)\<lparr>login_values := exampleGoodLogin\<rparr>"]
  by (simp add: exampleShortLogin_def exampleBadEmailLogin_def exampleGoodLogin_def
      exampleIsEmail_values initialLoginForm_def postedLogins_def)

end
